theory Spec2Isabelle
  imports Main
begin

section \<open>Strings: the V8 string operations used by \<open>stack_trace.cc\<close>\<close>

text \<open>
  A JavaScript string is a sequence of code points (a supplementary character is one
  element; V8 stores it as a surrogate pair and \<open>String::Utf8Value\<close> encodes the pair as
  one four-byte sequence; an unpaired surrogate is an element of its own). A C string, a \<open>std::string\<close> and the buffer of a
  \<open>String::Utf8Value\<close> are sequences of bytes, written \<open>string\<close> (a \<open>char list\<close>).
\<close>

type_synonym js_string = "nat list"

definition NUL :: char where
  "NUL = CHR 0x00"

definition newline_char :: char where
  "newline_char = CHR 0x0A"

definition space_char :: char where
  "space_char = CHR '' ''"

text \<open>The UTF-8 encoding of one code point.\<close>

definition utf8_encode :: "nat \<Rightarrow> string" where
  "utf8_encode cp =
     (if cp < 0x80 then [char_of cp]
      else if cp < 0x800 then
        [char_of (0xC0 + cp div 0x40), char_of (0x80 + cp mod 0x40)]
      else if cp < 0x10000 then
        [char_of (0xE0 + cp div 0x1000), char_of (0x80 + cp div 0x40 mod 0x40),
         char_of (0x80 + cp mod 0x40)]
      else
        [char_of (0xF0 + cp div 0x40000), char_of (0x80 + cp div 0x1000 mod 0x40),
         char_of (0x80 + cp div 0x40 mod 0x40), char_of (0x80 + cp mod 0x40)])"

text \<open>
  \<open>String::Utf8Value v(isolate, s)\<close>: the buffer holds the UTF-8 encoding of \<open>s\<close>
  (followed by a terminating NUL, which is not part of the list). \<open>v.length()\<close> is the
  number of bytes of the buffer, \<open>*v\<close> is a \<open>char*\<close> to it.
\<close>

definition Utf8Value :: "js_string \<Rightarrow> string" where
  "Utf8Value s = concat (map utf8_encode s)"

text \<open>
  What a reader of a \<open>const char*\<close> sees: the bytes before the first NUL. This is what
  \<open>c_str[i]\<close>, \<open>strchr\<close>, \<open>strlen\<close> and \<open>operator<<(ostream, const char*)\<close> work on.
\<close>

definition c_string :: "string \<Rightarrow> string" where
  "c_string buf = takeWhile (\<lambda>b. b \<noteq> NUL) buf"

text \<open>
  \<open>strchr(s, c)\<close> on the bytes of a C string: the suffix starting at the first occurrence
  of \<open>c\<close>, or \<open>nullptr\<close> (None).
\<close>

fun strchr :: "string \<Rightarrow> char \<Rightarrow> string option" where
  "strchr [] c = None"
| "strchr (x # xs) c = (if x = c then Some (x # xs) else strchr xs c)"

text \<open>
  \<open>String::NewFromOneByte(isolate, p, kNormal)\<close> with the default length: the bytes at
  \<open>p\<close> up to the terminating NUL are read as Latin-1, every byte one character.
\<close>

definition NewFromOneByte :: "string \<Rightarrow> js_string" where
  "NewFromOneByte p = map of_char (c_string p)"

text \<open>
  \<open>String::NewFromUtf8(isolate, p, kNormal)\<close> with the default length: the bytes at
  \<open>p\<close> up to the terminating NUL are decoded as UTF-8. A well-formed sequence gives its
  code point. Overlong forms, surrogates and values beyond U+10FFFF are not well-formed:
  the byte after the lead bytes E0, ED, F0 and F4 has a narrower range than 80..BF. Where a
  sequence breaks off, U+FFFD is given for what was read of it and the breaking byte
  starts anew; a byte that starts no sequence gives U+FFFD.
\<close>

definition second_lo :: "nat \<Rightarrow> nat" where
  "second_lo lead = (if lead = 0xE0 then 0xA0 else if lead = 0xF0 then 0x90 else 0x80)"

definition second_hi :: "nat \<Rightarrow> nat" where
  "second_hi lead = (if lead = 0xED then 0x9F else if lead = 0xF4 then 0x8F else 0xBF)"

text \<open>
  The decoder reads byte by byte: \<open>pending\<close> continuation bytes are still expected for
  the sequence whose bits so far are \<open>acc\<close>, and the next one has to lie between \<open>lo\<close>
  and \<open>hi\<close>.
\<close>

fun utf8_decode_from :: "nat \<Rightarrow> nat \<Rightarrow> nat \<Rightarrow> nat \<Rightarrow> string \<Rightarrow> js_string" where
  "utf8_decode_from pending acc lo hi [] = (if pending = 0 then [] else [0xFFFD])"
| "utf8_decode_from pending acc lo hi (b # bs) =
     (if pending \<noteq> 0 \<and> lo \<le> (of_char b :: nat) \<and> (of_char b :: nat) \<le> hi then
        (if pending = 1 then
           (acc * 0x40 + of_char b mod 0x40) # utf8_decode_from 0 0 0 0 bs
         else utf8_decode_from (pending - 1) (acc * 0x40 + of_char b mod 0x40) 0x80 0xBF bs)
      else
        (if pending = 0 then [] else [0xFFFD]) @
        (if (of_char b :: nat) < 0x80 then of_char b # utf8_decode_from 0 0 0 0 bs
         else if 0xC2 \<le> (of_char b :: nat) \<and> (of_char b :: nat) < 0xE0 then
           utf8_decode_from 1 (of_char b - 0xC0) 0x80 0xBF bs
         else if 0xE0 \<le> (of_char b :: nat) \<and> (of_char b :: nat) < 0xF0 then
           utf8_decode_from 2 (of_char b - 0xE0) (second_lo (of_char b)) (second_hi (of_char b)) bs
         else if 0xF0 \<le> (of_char b :: nat) \<and> (of_char b :: nat) < 0xF5 then
           utf8_decode_from 3 (of_char b - 0xF0) (second_lo (of_char b)) (second_hi (of_char b)) bs
         else 0xFFFD # utf8_decode_from 0 0 0 0 bs))"

definition utf8_decode :: "string \<Rightarrow> js_string" where
  "utf8_decode bs = utf8_decode_from 0 0 0 0 bs"

definition NewFromUtf8 :: "string \<Rightarrow> js_string" where
  "NewFromUtf8 p = utf8_decode (c_string p)"

text \<open>\<open>String::Concat\<close> and \<open>String::Empty\<close>.\<close>

definition String_Concat :: "js_string \<Rightarrow> js_string \<Rightarrow> js_string" where
  "String_Concat a b = a @ b"

definition String_Empty :: js_string where
  "String_Empty = []"

text \<open>
  Modelled from the spec: the helper \<open>v8_string\<close> is declared outside this file. The spec
  gives the result of the getter as the constructor name followed by the literal \<open>: \<close>:
  \<open>v8_string\<close> of a literal of the source is the JavaScript string of its characters.
\<close>

definition v8_string :: "string \<Rightarrow> js_string" where
  "v8_string lit = NewFromOneByte lit"

section \<open>Writing to the \<open>std::stringstream\<close>\<close>

text \<open>
  \<open>ss << n\<close> for an \<open>int\<close>: the decimal digits, with a minus sign when negative. Line
  and column numbers are only printed, never computed with.
\<close>

definition digit_char :: "nat \<Rightarrow> char" where
  "digit_char d = char_of (48 + d)"

function show_nat :: "nat \<Rightarrow> string" where
  "show_nat n = (if n < 10 then [digit_char n] else show_nat (n div 10) @ [digit_char (n mod 10)])"
  by pat_completeness auto
termination
  by (relation "measure id") auto

declare show_nat.simps [simp del]

definition show_int :: "int \<Rightarrow> string" where
  "show_int i = (if i < 0 then CHR ''-'' # show_nat (nat (- i)) else show_nat (nat i))"

text \<open>
  The stream: the characters written so far, which \<open>ss.str()\<close> returns, and its error
  state. Once the error state is set, every further \<open>ss << x\<close> writes nothing.
\<close>

record stringstream =
  str :: string
  badbit :: bool

definition new_stringstream :: stringstream where
  "new_stringstream = \<lparr>str = [], badbit = False\<rparr>"

text \<open>
  What is written with \<open><<\<close>: a string literal of the source, a \<open>char*\<close> taken from a
  \<open>String::Utf8Value\<close> (None is the null pointer), or an \<open>int\<close>. Writing the null
  pointer writes nothing and sets the error state of the stream.
\<close>

datatype inserted = literal string | c_str "string option" | int_value int

fun put :: "stringstream \<Rightarrow> inserted \<Rightarrow> stringstream" where
  "put ss (literal cs) = (if badbit ss then ss else ss\<lparr>str := str ss @ cs\<rparr>)"
| "put ss (c_str None) = ss\<lparr>badbit := True\<rparr>"
| "put ss (c_str (Some buf)) = (if badbit ss then ss else ss\<lparr>str := str ss @ c_string buf\<rparr>)"
| "put ss (int_value n) = (if badbit ss then ss else ss\<lparr>str := str ss @ show_int n\<rparr>)"

section \<open>Stack frames and \<open>StackTraceHolder::RenderSingleStack\<close>\<close>

text \<open>
  What the renderer reads from a \<open>v8::StackFrame\<close>: \<open>GetScriptName()\<close>,
  \<open>GetLineNumber()\<close>, \<open>GetColumn()\<close>, \<open>IsEval()\<close>, \<open>GetScriptId()\<close> and
  \<open>GetFunctionName()\<close>. The two names are handles to strings, and None is the empty
  handle, which V8 returns for a frame whose script or function has no name. A
  \<open>v8::StackTrace\<close> is its sequence of frames, innermost first.
\<close>

record stack_frame =
  GetScriptName :: "js_string option"
  GetLineNumber :: int
  GetColumn :: int
  IsEval :: bool
  GetScriptId :: int
  GetFunctionName :: "js_string option"

type_synonym stack_trace = "stack_frame list"

text \<open>
  \<open>String::Utf8Value v(isolate, handle)\<close> for a handle that may be empty: for the empty
  handle \<open>*v\<close> is the null pointer and \<open>v.length()\<close> is 0.
\<close>

definition Utf8Value_of :: "js_string option \<Rightarrow> string option" where
  "Utf8Value_of handle = map_option Utf8Value handle"

definition Utf8Value_length :: "string option \<Rightarrow> nat" where
  "Utf8Value_length v = (case v of None \<Rightarrow> 0 | Some buf \<Rightarrow> length buf)"

text \<open>\<open>v8::Message::kNoScriptIdInfo\<close>, a constant of V8's header.\<close>

definition kNoScriptIdInfo :: int where
  "kNoScriptIdInfo = 0"

definition GetFrameCount :: "stack_trace \<Rightarrow> nat" where
  "GetFrameCount st = length st"

definition GetFrame :: "stack_trace \<Rightarrow> nat \<Rightarrow> stack_frame" where
  "GetFrame st ii = st ! ii"

text \<open>
  The body of the loop of \<open>RenderSingleStack\<close>: what one frame writes to \<open>ss\<close>, from left
  to right.
\<close>

definition render_frame :: "stringstream \<Rightarrow> stack_frame \<Rightarrow> stringstream" where
  "render_frame ss frame =
     (let script_name = Utf8Value_of (GetScriptName frame);
          line_number = GetLineNumber frame;
          column = GetColumn frame
      in if IsEval frame then
           (if GetScriptId frame = kNoScriptIdInfo then
              foldl put ss [literal (newline_char # ''    at [eval]:''), int_value line_number,
                literal '':'', int_value column]
            else
              foldl put ss [literal (newline_char # ''    at [eval] (''), c_str script_name,
                literal '':'', int_value line_number, literal '':'', int_value column])
         else
           (let fn_name = Utf8Value_of (GetFunctionName frame)
            in if Utf8Value_length fn_name = 0 then
                 foldl put ss [literal (newline_char # ''    at ''), c_str script_name,
                   literal '':'', int_value line_number, literal '':'', int_value column]
               else
                 foldl put ss [literal (newline_char # ''    at ''), c_str fn_name,
                   literal '' ('', c_str script_name, literal '':'', int_value line_number,
                   literal '':'', int_value column, literal '')'']))"

text \<open>The loop \<open>for (int ii = 0; ii < size; ++ii)\<close>, with the stream as its state.\<close>

function render_loop :: "stack_trace \<Rightarrow> nat \<Rightarrow> stringstream \<Rightarrow> stringstream" where
  "render_loop st ii ss =
     (if ii < GetFrameCount st then render_loop st (Suc ii) (render_frame ss (GetFrame st ii))
      else ss)"
  by pat_completeness auto
termination
  by (relation "measure (\<lambda>(st, ii, ss). GetFrameCount st - ii)") auto

declare render_loop.simps [simp del]

definition RenderSingleStack :: "stack_trace \<Rightarrow> string" where
  "RenderSingleStack st = str (render_loop st 0 new_stringstream)"

section \<open>Chain data and \<open>RenderErrorStack\<close>\<close>

text \<open>
  The member \<open>stack_trace\<close> of a \<open>StackTraceHolder\<close> is a handle made by the constructor
  in the isolate current at that moment: \<open>stack_trace(Isolate::GetCurrent(), stack_handle)\<close>.
  The isolate is what the spec calls the context of the capture; contexts are numbered.
\<close>

datatype handle = Handle (context_of: nat) (referent: stack_trace)

text \<open>
  The values the renderer and the chain builder tell apart: \<open>IsUndefined()\<close>,
  \<open>IsString()\<close>, \<open>IsArray()\<close>, an instance of \<open>StackTraceHolder\<close>, and any other value
  (a number, a plain object, ...).
\<close>

datatype js_value =
    Undefined
  | JsString js_string
  | JsArray "js_value list"
  | JsStackTraceHolder handle
  | JsOther

definition IsUndefined :: "js_value \<Rightarrow> bool" where
  "IsUndefined v = (case v of Undefined \<Rightarrow> True | _ \<Rightarrow> False)"

definition IsString :: "js_value \<Rightarrow> bool" where
  "IsString v = (case v of JsString s \<Rightarrow> True | _ \<Rightarrow> False)"

text \<open>\<open>array->Get(context, i)\<close>: an index beyond the elements reads \<open>undefined\<close>.\<close>

definition Array_Get :: "js_value list \<Rightarrow> nat \<Rightarrow> js_value" where
  "Array_Get array i = (if i < length array then array ! i else Undefined)"

text \<open>
  Modelled from the spec: \<open>Deref\<close> and the handle type of the member \<open>stack_trace\<close> are
  declared outside this file. By the spec, the reference a holder keeps is valid exactly as
  long as the context that produced the capture is alive, and dereferencing fails once that
  context has been destroyed. \<open>live\<close> is the set of contexts alive at the time of the call;
  None is the failure.
\<close>

definition Deref :: "nat set \<Rightarrow> handle \<Rightarrow> stack_trace option" where
  "Deref live h = (if context_of h \<in> live then Some (referent h) else None)"

text \<open>
  The test \<open>c_str[0] == ' ' && c_str[1] == ' ' && c_str[2] == ' ' && c_str[3] == ' '\<close>. On
  a C string shorter than four bytes the test reads its terminating NUL, which is not a
  space, and \<open>&&\<close> stops there.
\<close>

fun starts_with_indentation :: "string \<Rightarrow> bool" where
  "starts_with_indentation (c0 # c1 # c2 # c3 # rest) =
     (c0 = space_char \<and> c1 = space_char \<and> c2 = space_char \<and> c3 = space_char)"
| "starts_with_indentation cs = False"

definition boundary :: js_string where
  "boundary = NewFromOneByte (newline_char # ''    at (<isolated-vm boundary>)'')"

lemma size_Array_Get [termination_simp]: "size (Array_Get array i) < Suc (size_list size array)"
proof (cases "i < length array")
  case True
  then have "array ! i \<in> set array" by simp
  then have "size (array ! i) \<le> size_list size array"
    by (rule size_list_estimation') simp
  with True show ?thesis by (simp add: Array_Get_def)
next
  case False
  then show ?thesis by (simp add: Array_Get_def)
qed

text \<open>
  \<open>RenderErrorStack(data)\<close>. None is the failure of the call: the last branch unwraps
  \<open>data\<close> as a \<open>StackTraceHolder\<close> without a test, which yields no holder for a value that
  is none, and \<open>Deref\<close> can fail. The two recursive calls of the array branch are arguments
  of \<open>String::Concat\<close>; the call yields a string when both do.
\<close>

function RenderErrorStack :: "nat set \<Rightarrow> js_value \<Rightarrow> js_string option" where
  "RenderErrorStack live (JsString s) =
     (let c_str = c_string (Utf8Value s)
      in if starts_with_indentation c_str then Some s
         else (case strchr c_str newline_char of
                 None \<Rightarrow> Some String_Empty
               | Some newline \<Rightarrow> Some (NewFromOneByte newline)))"
| "RenderErrorStack live (JsArray array) =
     (case RenderErrorStack live (Array_Get array 1) of
        None \<Rightarrow> None
      | Some older \<Rightarrow>
          (case RenderErrorStack live (Array_Get array 0) of
             None \<Rightarrow> None
           | Some newer \<Rightarrow> Some (String_Concat (String_Concat older boundary) newer)))"
| "RenderErrorStack live (JsStackTraceHolder that) =
     (case Deref live that of
        None \<Rightarrow> None
      | Some stack_trace \<Rightarrow> Some (NewFromUtf8 (RenderSingleStack stack_trace)))"
| "RenderErrorStack live Undefined = None"
| "RenderErrorStack live JsOther = None"
  by pat_completeness auto
termination
  by (relation "measure (\<lambda>(live, data). size data)") (simp_all add: size_Array_Get)

section \<open>Error objects, the accessor and the installer\<close>

text \<open>
  \<open>v8::PropertyAttribute\<close> (None is the empty set) and \<open>v8::AccessControl\<close>. By V8's
  header \<open>DontEnum\<close> is "not enumerable" and \<open>DontDelete\<close> is "not configurable".
\<close>

datatype PropertyAttribute = ReadOnly | DontEnum | DontDelete

datatype AccessControl = DEFAULT | ALL_CAN_READ | ALL_CAN_WRITE

definition enumerable :: "PropertyAttribute set \<Rightarrow> bool" where
  "enumerable attributes = (DontEnum \<notin> attributes)"

definition configurable :: "PropertyAttribute set \<Rightarrow> bool" where
  "configurable attributes = (DontDelete \<notin> attributes)"

text \<open>The native callbacks of this file that \<open>SetAccessor\<close> can be given.\<close>

datatype accessor_callback = ErrorStackGetter_callback

text \<open>
  The own property \<open>stack\<close> of an error object: absent, a plain value with its
  attributes, or a native accessor as \<open>SetAccessor\<close> defines it (getter, setter or
  \<open>nullptr\<close>, access control, attributes).
\<close>

datatype property =
    NoProperty
  | DataProperty js_value "PropertyAttribute set"
  | NativeAccessor accessor_callback "accessor_callback option" AccessControl "PropertyAttribute set"

definition attributes_of :: "property \<Rightarrow> PropertyAttribute set option" where
  "attributes_of p =
     (case p of
        NoProperty \<Rightarrow> None
      | DataProperty v attributes \<Rightarrow> Some attributes
      | NativeAccessor getter setter settings attributes \<Rightarrow> Some attributes)"

text \<open>
  What this file reads and writes of an error object: \<open>GetConstructorName()\<close>; the result
  of \<open>Get(context, "message")\<close> followed by \<open>ToString(context)\<close> (None when either
  throws, which \<open>Unmaybe\<close> passes on); the property \<open>stack\<close>; whether the object is
  extensible; the private slot of \<open>GetPrivateStackSymbol()\<close> (\<open>undefined\<close> while
  nothing is stored); and \<open>Exception::GetStackTrace(error)\<close> (None for the empty handle).
\<close>

record error_object =
  GetConstructorName :: js_string
  message :: "js_string option"
  stack :: property
  extensible :: bool
  private_stack :: js_value
  GetStackTrace :: "stack_trace option"

text \<open>
  \<open>ErrorStackGetter\<close>, run by \<open>FunctorRunners::RunCallback\<close>: the string handed to the
  reader of the property, or None when the callback throws or faults.
\<close>

definition ErrorStackGetter :: "nat set \<Rightarrow> error_object \<Rightarrow> js_string option" where
  "ErrorStackGetter live holder =
     (case message holder of
        None \<Rightarrow> None
      | Some message_string \<Rightarrow>
          (case RenderErrorStack live (private_stack holder) of
             None \<Rightarrow> None
           | Some rendered \<Rightarrow>
               Some (String_Concat
                 (String_Concat (GetConstructorName holder) (v8_string '': ''))
                 (String_Concat message_string rendered))))"

text \<open>\<open>error->Get(context, v8_string("stack"))\<close>: a read of the property \<open>stack\<close>.\<close>

definition Get_stack :: "nat set \<Rightarrow> error_object \<Rightarrow> js_value option" where
  "Get_stack live error =
     (case stack error of
        NoProperty \<Rightarrow> Some Undefined
      | DataProperty v attributes \<Rightarrow> Some v
      | NativeAccessor getter setter settings attributes \<Rightarrow>
          (case getter of
             ErrorStackGetter_callback \<Rightarrow> map_option JsString (ErrorStackGetter live error)))"

text \<open>
  \<open>error->SetPrivate(context, GetPrivateStackSymbol(), data)\<close>: the private slot is
  written on every object, extensible or not.
\<close>

definition SetPrivate :: "error_object \<Rightarrow> js_value \<Rightarrow> error_object" where
  "SetPrivate error data = error\<lparr>private_stack := data\<rparr>"

text \<open>
  \<open>error->SetAccessor(context, name, getter, setter, data, settings, attribute)\<close> for the
  name \<open>stack\<close>. V8 defines the property unless the object is not extensible or its own
  property \<open>stack\<close> is not configurable; then it defines nothing and returns false,
  without an exception. The result is the returned truth value and the object after the
  call.
\<close>

definition can_define_stack :: "error_object \<Rightarrow> bool" where
  "can_define_stack error =
     (extensible error \<and>
      (case attributes_of (stack error) of
         None \<Rightarrow> True
       | Some attributes \<Rightarrow> configurable attributes))"

definition SetAccessor ::
  "error_object \<Rightarrow> accessor_callback \<Rightarrow> accessor_callback option \<Rightarrow> AccessControl
     \<Rightarrow> PropertyAttribute set \<Rightarrow> bool \<times> error_object" where
  "SetAccessor error getter setter settings attributes =
     (if can_define_stack error
      then (True, error\<lparr>stack := NativeAccessor getter setter settings attributes\<rparr>)
      else (False, error))"

text \<open>
  \<open>AttachStackGetter(error, data)\<close>: \<open>SetPrivate\<close>, then \<open>SetAccessor\<close>. \<open>Unmaybe\<close>
  throws on an empty result only; the truth value that \<open>SetAccessor\<close> returns is dropped.
\<close>

definition AttachStackGetter :: "error_object \<Rightarrow> js_value \<Rightarrow> error_object" where
  "AttachStackGetter error data =
     snd (SetAccessor (SetPrivate error data) ErrorStackGetter_callback None DEFAULT {DontEnum})"

text \<open>
  Modelled from the spec: \<open>ClassHandle::NewInstance\<close> is declared outside this file. By
  the spec a holder is a small object that wraps one capture; the constructor of
  \<open>StackTraceHolder\<close>, which is in this file, makes its handle in the context \<open>current\<close>.
\<close>

definition NewInstance_StackTraceHolder :: "nat \<Rightarrow> stack_trace \<Rightarrow> js_value" where
  "NewInstance_StackTraceHolder current stack_handle = JsStackTraceHolder (Handle current stack_handle)"

definition AttachStack :: "nat \<Rightarrow> error_object \<Rightarrow> stack_trace \<Rightarrow> error_object" where
  "AttachStack current error stack_handle =
     AttachStackGetter error (NewInstance_StackTraceHolder current stack_handle)"

text \<open>The last four lines of \<open>ChainStack\<close>: the pair \<open>[new holder, existing_data]\<close>.\<close>

definition attach_pair :: "nat \<Rightarrow> error_object \<Rightarrow> stack_trace \<Rightarrow> js_value \<Rightarrow> error_object" where
  "attach_pair current error stack_handle existing_data =
     AttachStackGetter error
       (JsArray [NewInstance_StackTraceHolder current stack_handle, existing_data])"

text \<open>
  \<open>StackTraceHolder::ChainStack(error, stack)\<close> in the context \<open>current\<close>. None: the read
  of \<open>stack\<close> threw, and nothing was written.
\<close>

definition ChainStack ::
  "nat set \<Rightarrow> nat \<Rightarrow> error_object \<Rightarrow> stack_trace \<Rightarrow> error_object option" where
  "ChainStack live current error stack_handle =
     (let existing_data = private_stack error
      in if IsUndefined existing_data then
           (case GetStackTrace error of
              None \<Rightarrow>
                (case Get_stack live error of
                   None \<Rightarrow> None
                 | Some existing_data \<Rightarrow>
                     if IsUndefined existing_data \<or> \<not> IsString existing_data
                     then Some (AttachStack current error stack_handle)
                     else Some (attach_pair current error stack_handle existing_data))
            | Some existing_stack \<Rightarrow>
                Some (attach_pair current error stack_handle
                        (NewInstance_StackTraceHolder current existing_stack)))
         else Some (attach_pair current error stack_handle existing_data))"

section \<open>Notions used to state the properties\<close>

text \<open>
  A sequence of boundary crossings of one error: \<open>ChainStack\<close> is called once per
  crossing, in the context \<open>current\<close> with its capture \<open>stack_handle\<close>, oldest first.
\<close>

fun chain_calls ::
  "nat set \<Rightarrow> error_object \<Rightarrow> (nat \<times> stack_trace) list \<Rightarrow> error_object option" where
  "chain_calls live error [] = Some error"
| "chain_calls live error ((current, stack_handle) # rest) =
     (case ChainStack live current error stack_handle of
        None \<Rightarrow> None
      | Some error' \<Rightarrow> chain_calls live error' rest)"

text \<open>
  The frames whose line contains the script name, and the characters that a name
  contributes to a line: those of its C string in UTF-8.
\<close>

definition prints_script_name :: "stack_frame \<Rightarrow> bool" where
  "prints_script_name frame = (\<not> (IsEval frame \<and> GetScriptId frame = kNoScriptIdInfo))"

definition name_chars :: "js_string option \<Rightarrow> string" where
  "name_chars handle = (case handle of None \<Rightarrow> [] | Some s \<Rightarrow> c_string (Utf8Value s))"

text \<open>The text one capture contributes to a rendered chain.\<close>

definition segment :: "stack_trace \<Rightarrow> js_string" where
  "segment stack_handle = NewFromUtf8 (RenderSingleStack stack_handle)"

text \<open>Segments, oldest first, with the boundary marker between neighbours.\<close>

fun separated :: "js_string list \<Rightarrow> js_string" where
  "separated [] = []"
| "separated [x] = x"
| "separated (x # y # rest) = x @ boundary @ separated (y # rest)"

text \<open>
  The shapes of chain data: a string, a holder whose context is alive, or an array whose
  elements 1 and 0 are of these shapes again.
\<close>

function renderable :: "nat set \<Rightarrow> js_value \<Rightarrow> bool" where
  "renderable live (JsString s) = True"
| "renderable live (JsArray array) =
     (renderable live (Array_Get array 1) \<and> renderable live (Array_Get array 0))"
| "renderable live (JsStackTraceHolder that) = (context_of that \<in> live)"
| "renderable live Undefined = False"
| "renderable live JsOther = False"
  by pat_completeness auto
termination
  by (relation "measure (\<lambda>(live, data). size data)") (simp_all add: size_Array_Get)

text \<open>Chain data with a segment, at any depth, whose context has been destroyed.\<close>

function has_stale_segment :: "nat set \<Rightarrow> js_value \<Rightarrow> bool" where
  "has_stale_segment live (JsString s) = False"
| "has_stale_segment live (JsArray array) =
     (has_stale_segment live (Array_Get array 1) \<or> has_stale_segment live (Array_Get array 0))"
| "has_stale_segment live (JsStackTraceHolder that) = (context_of that \<notin> live)"
| "has_stale_segment live Undefined = False"
| "has_stale_segment live JsOther = False"
  by pat_completeness auto
termination
  by (relation "measure (\<lambda>(live, data). size data)") (simp_all add: size_Array_Get)

text \<open>Strings of ASCII characters other than NUL.\<close>

definition ascii :: "js_string \<Rightarrow> bool" where
  "ascii s = (\<forall>cp \<in> set s. 0 < cp \<and> cp < 128)"

section \<open>Concrete inputs\<close>

definition frame_named :: stack_frame where
  "frame_named = \<lparr>GetScriptName = Some (v8_string ''s.js''), GetLineNumber = 12, GetColumn = 3,
     IsEval = False, GetScriptId = 5, GetFunctionName = Some (v8_string ''f'')\<rparr>"

definition frame_anonymous :: stack_frame where
  "frame_anonymous = \<lparr>GetScriptName = Some (v8_string ''t.js''), GetLineNumber = 7,
     GetColumn = 1, IsEval = False, GetScriptId = 6, GetFunctionName = None\<rparr>"

definition frame_eval :: stack_frame where
  "frame_eval = \<lparr>GetScriptName = None, GetLineNumber = 1, GetColumn = 9,
     IsEval = True, GetScriptId = kNoScriptIdInfo, GetFunctionName = None\<rparr>"

definition frame_eval_script :: stack_frame where
  "frame_eval_script = \<lparr>GetScriptName = Some (v8_string ''u.js''), GetLineNumber = 2,
     GetColumn = 4, IsEval = True, GetScriptId = 8, GetFunctionName = Some (v8_string ''g'')\<rparr>"

text \<open>A frame of a script without a name.\<close>

definition frame_unnamed_script :: stack_frame where
  "frame_unnamed_script = \<lparr>GetScriptName = None, GetLineNumber = 4, GetColumn = 2,
     IsEval = False, GetScriptId = 9, GetFunctionName = Some (v8_string ''k'')\<rparr>"

text \<open>An error that has not passed through the subsystem and has no trace of its own.\<close>

definition fresh_error :: error_object where
  "fresh_error = \<lparr>GetConstructorName = v8_string ''Error'', message = Some (v8_string ''boom''),
     stack = NoProperty, extensible = True, private_stack = Undefined, GetStackTrace = None\<rparr>"

text \<open>An error created in JavaScript, with the trace V8 captured for it.\<close>

definition native_error :: error_object where
  "native_error = fresh_error\<lparr>GetStackTrace := Some [frame_anonymous]\<rparr>"

text \<open>An error copied from another isolate: its \<open>stack\<close> is a plain string.\<close>

definition copied_error :: error_object where
  "copied_error = fresh_error\<lparr>stack := DataProperty (JsString (v8_string ''Error: boom''
     @ NewFromOneByte (newline_char # ''    at h (v.js:3:3)''))) {DontEnum}\<rparr>"

text \<open>The same error after \<open>Object.freeze\<close>, and a fresh one after \<open>Object.preventExtensions\<close>.\<close>

definition frozen_error :: error_object where
  "frozen_error = fresh_error\<lparr>stack := DataProperty (JsString (v8_string ''Error: boom''
     @ NewFromOneByte (newline_char # ''    at h (v.js:3:3)''))) {ReadOnly, DontEnum, DontDelete},
     extensible := False\<rparr>"

definition non_extensible_error :: error_object where
  "non_extensible_error = fresh_error\<lparr>extensible := False\<rparr>"

section \<open>Evaluation and basic facts\<close>

lemmas byte_eval = char_of_def bit_0 NUL_def newline_char_def space_char_def

lemmas string_eval = Utf8Value_def utf8_encode_def c_string_def NewFromOneByte_def
  NewFromUtf8_def utf8_decode_def second_lo_def second_hi_def
  String_Concat_def String_Empty_def v8_string_def boundary_def segment_def

lemmas stream_eval = show_int_def show_nat.simps digit_char_def

lemmas frame_eval_defs = frame_named_def frame_anonymous_def frame_eval_def
  frame_eval_script_def frame_unnamed_script_def kNoScriptIdInfo_def

lemmas error_eval_defs = fresh_error_def native_error_def copied_error_def frozen_error_def
  non_extensible_error_def

lemma render_loop_foldl:
  "ii \<le> length st \<Longrightarrow> render_loop st ii ss = foldl render_frame ss (drop ii st)"
proof (induction st ii ss rule: render_loop.induct)
  case (1 st ii ss)
  show ?case
  proof (cases "ii < length st")
    case True
    then have "drop ii st = st ! ii # drop (Suc ii) st"
      by (simp add: Cons_nth_drop_Suc)
    with True 1 show ?thesis
      by (subst render_loop.simps) (simp add: GetFrameCount_def GetFrame_def)
  next
    case False
    with 1 show ?thesis
      by (subst render_loop.simps) (simp add: GetFrameCount_def)
  qed
qed

lemma RenderSingleStack_foldl:
  "RenderSingleStack st = str (foldl render_frame new_stringstream st)"
  by (simp add: RenderSingleStack_def render_loop_foldl)

lemmas render_eval = RenderSingleStack_foldl render_frame_def new_stringstream_def
  Utf8Value_of_def Utf8Value_length_def

lemma utf8_encode_not_Nil: "utf8_encode cp \<noteq> []"
  by (simp add: utf8_encode_def)

lemma Utf8Value_Nil_iff: "(Utf8Value s = []) = (s = [])"
  by (cases s) (simp_all add: Utf8Value_def utf8_encode_not_Nil)

section \<open>UTF-8: decoding what was encoded\<close>

text \<open>
  \<open>NewFromUtf8\<close> gives back the string that \<open>Utf8Value\<close> has encoded, for every
  string of code points up to U+10FFFF without NUL and without unpaired surrogates. This is
  the pair of operations of the holder branch of \<open>RenderErrorStack\<close>.
\<close>

lemma of_char_char_of_small: "n < 256 \<Longrightarrow> (of_char (char_of (n::nat)) :: nat) = n"
  by simp

lemma cont_byte: "(of_char (char_of (0x80 + x mod 0x40 :: nat)) :: nat) = 0x80 + x mod 0x40"
proof -
  have "x mod 0x40 < 0x40" by simp
  then have "0x80 + x mod 0x40 < 256" by linarith
  then show ?thesis by (rule of_char_char_of_small)
qed

lemma cont_bits: "(0x80 + x mod 0x40) mod 0x40 = x mod (0x40::nat)"
proof -
  have "(0x80 + x mod 0x40) mod 0x40 = (2 * 0x40 + x mod 0x40) mod (0x40::nat)" by simp
  also have "\<dots> = x mod 0x40" by (simp only: mod_mult_self3 mod_mod_trivial)
  finally show ?thesis .
qed

lemma decode_cont_last:
  assumes "lo \<le> 0x80 + x mod 0x40" "0x80 + x mod 0x40 \<le> hi"
  shows "utf8_decode_from 1 acc lo hi (char_of (0x80 + x mod 0x40 :: nat) # rest)
     = (acc * 0x40 + x mod 0x40) # utf8_decode_from 0 0 0 0 rest"
  using assms by (simp add: cont_byte cont_bits del: of_char_of)

lemma decode_cont_more:
  assumes "1 < pending" "lo \<le> 0x80 + x mod 0x40" "0x80 + x mod 0x40 \<le> hi"
  shows "utf8_decode_from pending acc lo hi (char_of (0x80 + x mod 0x40 :: nat) # rest)
     = utf8_decode_from (pending - 1) (acc * 0x40 + x mod 0x40) 0x80 0xBF rest"
  using assms by (simp add: cont_byte cont_bits del: of_char_of)

lemma cont_in_range: "0x80 \<le> 0x80 + x mod 0x40" "0x80 + x mod 0x40 \<le> (0xBF::nat)"
proof -
  have "x mod 0x40 < 0x40" by simp
  then show "0x80 + x mod 0x40 \<le> (0xBF::nat)" by linarith
qed simp

lemma decode_lead:
  assumes "0x80 \<le> n" "n < 256"
  shows "utf8_decode_from 0 0 0 0 (char_of (n::nat) # rest) =
     (if 0xC2 \<le> n \<and> n < 0xE0 then utf8_decode_from 1 (n - 0xC0) 0x80 0xBF rest
      else if 0xE0 \<le> n \<and> n < 0xF0 then
        utf8_decode_from 2 (n - 0xE0) (second_lo n) (second_hi n) rest
      else if 0xF0 \<le> n \<and> n < 0xF5 then
        utf8_decode_from 3 (n - 0xF0) (second_lo n) (second_hi n) rest
      else 0xFFFD # utf8_decode_from 0 0 0 0 rest)"
  using assms by (simp add: of_char_char_of_small del: of_char_of)

lemma div_64_64: "(cp::nat) div 0x1000 = cp div 0x40 div 0x40"
proof -
  have "(0x1000::nat) = 0x40 * 0x40" by simp
  then show ?thesis by (simp only: div_mult2_eq)
qed

lemma div_64_64_64: "(cp::nat) div 0x40000 = cp div 0x40 div 0x40 div 0x40"
proof -
  have "(0x40000::nat) = 0x40 * 0x40 * 0x40" by simp
  then show ?thesis by (simp only: div_mult2_eq)
qed

lemma decode_2:
  assumes "0x80 \<le> cp" "cp < 0x800"
  shows "utf8_decode_from 0 0 0 0 (utf8_encode cp @ rest) = cp # utf8_decode_from 0 0 0 0 rest"
proof -
  have d: "cp div 0x40 < 0x20" "2 \<le> cp div 0x40"
    using assms by (simp_all add: less_mult_imp_div_less le_div_geq div_greater_zero_iff)
  have enc: "utf8_encode cp = [char_of (0xC0 + cp div 0x40), char_of (0x80 + cp mod 0x40)]"
    using assms by (simp add: utf8_encode_def)
  have "utf8_decode_from 0 0 0 0 (utf8_encode cp @ rest)
      = utf8_decode_from 1 (cp div 0x40) 0x80 0xBF (char_of (0x80 + cp mod 0x40) # rest)"
    unfolding enc using d by (simp add: decode_lead del: utf8_decode_from.simps)
  also have "\<dots> = (cp div 0x40 * 0x40 + cp mod 0x40) # utf8_decode_from 0 0 0 0 rest"
    by (rule decode_cont_last) (rule cont_in_range)+
  also have "cp div 0x40 * 0x40 + cp mod 0x40 = cp" by simp
  finally show ?thesis .
qed

lemma second_byte_3:
  assumes "0x800 \<le> cp" "cp < 0x10000" "cp < 0xD800 \<or> 0xE000 \<le> cp"
  shows "second_lo (0xE0 + cp div 0x1000) \<le> 0x80 + cp div 0x40 mod 0x40"
    and "0x80 + cp div 0x40 mod 0x40 \<le> second_hi (0xE0 + cp div 0x1000)"
proof -
  have decomp: "cp div 0x40 = 0x40 * (cp div 0x1000) + cp div 0x40 mod 0x40"
    unfolding div_64_64 by simp
  have m: "cp div 0x40 mod 0x40 < 0x40" by simp
  have top: "cp div 0x1000 < 0x10"
    using assms(2) by (simp add: less_mult_imp_div_less)
  show "second_lo (0xE0 + cp div 0x1000) \<le> 0x80 + cp div 0x40 mod 0x40"
  proof (cases "cp div 0x1000 = 0")
    case True
    from assms(1) have "0x20 \<le> cp div 0x40"
      by (simp add: le_div_geq div_greater_zero_iff less_eq_div_iff_mult_less_eq)
    with True decomp show ?thesis by (simp add: second_lo_def)
  next
    case False
    with top show ?thesis by (simp add: second_lo_def)
  qed
  show "0x80 + cp div 0x40 mod 0x40 \<le> second_hi (0xE0 + cp div 0x1000)"
  proof (cases "cp div 0x1000 = 0xD")
    case True
    have "cp < 0xE000"
    proof (rule ccontr)
      assume "\<not> cp < 0xE000"
      then have "0xE * 0x1000 \<le> cp" by simp
      then have "0xE \<le> cp div 0x1000" by (simp add: less_eq_div_iff_mult_less_eq)
      with True show False by simp
    qed
    with assms(3) have "cp < 0xD800" by linarith
    then have "cp div 0x40 < 0x360" by (simp add: less_mult_imp_div_less)
    with True decomp have "cp div 0x40 mod 0x40 < 0x20" by linarith
    with True show ?thesis by (simp add: second_hi_def)
  next
    case False
    with m top show ?thesis by (simp add: second_hi_def)
  qed
qed

lemma second_byte_4:
  assumes "0x10000 \<le> cp" "cp < 0x110000"
  shows "second_lo (0xF0 + cp div 0x40000) \<le> 0x80 + cp div 0x1000 mod 0x40"
    and "0x80 + cp div 0x1000 mod 0x40 \<le> second_hi (0xF0 + cp div 0x40000)"
proof -
  have decomp: "cp div 0x1000 = 0x40 * (cp div 0x40000) + cp div 0x1000 mod 0x40"
    unfolding div_64_64_64 div_64_64 by simp
  have m: "cp div 0x1000 mod 0x40 < 0x40" by simp
  have top: "cp div 0x40000 < 5"
    using assms(2) by (simp add: less_mult_imp_div_less)
  show "second_lo (0xF0 + cp div 0x40000) \<le> 0x80 + cp div 0x1000 mod 0x40"
  proof (cases "cp div 0x40000 = 0")
    case True
    from assms(1) have "0x10 \<le> cp div 0x1000"
      by (simp add: less_eq_div_iff_mult_less_eq)
    with True decomp show ?thesis by (simp add: second_lo_def)
  next
    case False
    then show ?thesis by (simp add: second_lo_def)
  qed
  show "0x80 + cp div 0x1000 mod 0x40 \<le> second_hi (0xF0 + cp div 0x40000)"
  proof (cases "cp div 0x40000 = 4")
    case True
    from assms(2) have "cp div 0x1000 < 0x110" by (simp add: less_mult_imp_div_less)
    with True decomp have "cp div 0x1000 mod 0x40 < 0x10" by linarith
    with True show ?thesis by (simp add: second_hi_def)
  next
    case False
    with m top show ?thesis by (simp add: second_hi_def)
  qed
qed

lemma decode_3:
  assumes "0x800 \<le> cp" "cp < 0x10000" "cp < 0xD800 \<or> 0xE000 \<le> cp"
  shows "utf8_decode_from 0 0 0 0 (utf8_encode cp @ rest) = cp # utf8_decode_from 0 0 0 0 rest"
proof -
  have d: "cp div 0x1000 < 0x10"
    using assms by (simp add: less_mult_imp_div_less)
  have enc: "utf8_encode cp = [char_of (0xE0 + cp div 0x1000),
      char_of (0x80 + cp div 0x40 mod 0x40), char_of (0x80 + cp mod 0x40)]"
    using assms by (simp add: utf8_encode_def)
  have "utf8_decode_from 0 0 0 0 (utf8_encode cp @ rest)
      = utf8_decode_from 2 (cp div 0x1000)
          (second_lo (0xE0 + cp div 0x1000)) (second_hi (0xE0 + cp div 0x1000))
          (char_of (0x80 + cp div 0x40 mod 0x40) # char_of (0x80 + cp mod 0x40) # rest)"
    unfolding enc using d by (simp add: decode_lead del: utf8_decode_from.simps)
  also have "\<dots> = utf8_decode_from 1 (cp div 0x1000 * 0x40 + cp div 0x40 mod 0x40) 0x80 0xBF
          (char_of (0x80 + cp mod 0x40) # rest)"
    using second_byte_3 [OF assms] by (simp add: decode_cont_more del: utf8_decode_from.simps)
  also have "cp div 0x1000 * 0x40 + cp div 0x40 mod 0x40 = cp div 0x40"
    unfolding div_64_64 by simp
  also have "utf8_decode_from 1 (cp div 0x40) 0x80 0xBF (char_of (0x80 + cp mod 0x40) # rest)
      = (cp div 0x40 * 0x40 + cp mod 0x40) # utf8_decode_from 0 0 0 0 rest"
    by (rule decode_cont_last) (rule cont_in_range)+
  also have "cp div 0x40 * 0x40 + cp mod 0x40 = cp" by simp
  finally show ?thesis .
qed

lemma decode_4:
  assumes "0x10000 \<le> cp" "cp < 0x110000"
  shows "utf8_decode_from 0 0 0 0 (utf8_encode cp @ rest) = cp # utf8_decode_from 0 0 0 0 rest"
proof -
  have d: "cp div 0x40000 < 5"
    using assms by (simp add: less_mult_imp_div_less)
  have enc: "utf8_encode cp = [char_of (0xF0 + cp div 0x40000),
      char_of (0x80 + cp div 0x1000 mod 0x40), char_of (0x80 + cp div 0x40 mod 0x40),
      char_of (0x80 + cp mod 0x40)]"
    using assms by (simp add: utf8_encode_def)
  have "utf8_decode_from 0 0 0 0 (utf8_encode cp @ rest)
      = utf8_decode_from 3 (cp div 0x40000)
          (second_lo (0xF0 + cp div 0x40000)) (second_hi (0xF0 + cp div 0x40000))
          (char_of (0x80 + cp div 0x1000 mod 0x40) # char_of (0x80 + cp div 0x40 mod 0x40)
             # char_of (0x80 + cp mod 0x40) # rest)"
    unfolding enc using d by (simp add: decode_lead del: utf8_decode_from.simps)
  also have "\<dots> = utf8_decode_from 2 (cp div 0x40000 * 0x40 + cp div 0x1000 mod 0x40) 0x80 0xBF
          (char_of (0x80 + cp div 0x40 mod 0x40) # char_of (0x80 + cp mod 0x40) # rest)"
    using second_byte_4 [OF assms] by (simp add: decode_cont_more del: utf8_decode_from.simps)
  also have "cp div 0x40000 * 0x40 + cp div 0x1000 mod 0x40 = cp div 0x1000"
    unfolding div_64_64_64 div_64_64 by simp
  also have "utf8_decode_from 2 (cp div 0x1000) 0x80 0xBF
          (char_of (0x80 + cp div 0x40 mod 0x40) # char_of (0x80 + cp mod 0x40) # rest)
      = utf8_decode_from 1 (cp div 0x1000 * 0x40 + cp div 0x40 mod 0x40) 0x80 0xBF
          (char_of (0x80 + cp mod 0x40) # rest)"
    using cont_in_range [of "cp div 0x40"]
    by (simp add: decode_cont_more del: utf8_decode_from.simps)
  also have "cp div 0x1000 * 0x40 + cp div 0x40 mod 0x40 = cp div 0x40"
    unfolding div_64_64 by simp
  also have "utf8_decode_from 1 (cp div 0x40) 0x80 0xBF (char_of (0x80 + cp mod 0x40) # rest)
      = (cp div 0x40 * 0x40 + cp mod 0x40) # utf8_decode_from 0 0 0 0 rest"
    by (rule decode_cont_last) (rule cont_in_range)+
  also have "cp div 0x40 * 0x40 + cp mod 0x40 = cp" by simp
  finally show ?thesis .
qed

text \<open>Code points a well-formed string is made of: up to U+10FFFF, no surrogates.\<close>

lemma decode_encode:
  assumes "cp < 0xD800 \<or> (0xE000 \<le> cp \<and> cp < 0x110000)"
  shows "utf8_decode_from 0 0 0 0 (utf8_encode cp @ rest) = cp # utf8_decode_from 0 0 0 0 rest"
proof -
  consider "cp < 0x80" | "0x80 \<le> cp" "cp < 0x800" | "0x800 \<le> cp" "cp < 0x10000"
    | "0x10000 \<le> cp"
    by linarith
  then show ?thesis
  proof cases
    case 1
    then show ?thesis by (simp add: utf8_encode_def)
  next
    case 2
    then show ?thesis by (rule decode_2)
  next
    case 3
    with assms show ?thesis by (intro decode_3) simp_all
  next
    case 4
    with assms show ?thesis by (intro decode_4) simp_all
  qed
qed

lemma utf8_decode_Utf8Value:
  "\<forall>cp \<in> set s. cp < 0xD800 \<or> (0xE000 \<le> cp \<and> cp < 0x110000) \<Longrightarrow>
   utf8_decode (Utf8Value s) = s"
  unfolding utf8_decode_def Utf8Value_def
  by (induction s) (simp_all add: decode_encode del: utf8_decode_from.simps(2))

lemma utf8_encode_no_NUL:
  assumes "0 < cp" "cp < 0x110000"
  shows "NUL \<notin> set (utf8_encode cp)"
proof -
  have nz: "char_of n \<noteq> NUL" if "0 < n" "n < 256" for n :: nat
  proof
    assume "char_of n = NUL"
    then have "(of_char (char_of n) :: nat) = of_char NUL" by simp
    with that show False by (simp add: NUL_def)
  qed
  have cont: "char_of (0x80 + x mod 0x40 :: nat) \<noteq> NUL" for x
  proof (rule nz)
    have "x mod 0x40 < 0x40" by simp
    then show "0x80 + x mod 0x40 < 256" by linarith
  qed simp
  have lead2: "char_of (0xC0 + cp div 0x40) \<noteq> NUL" if "cp < 0x800"
    using that by (intro nz) (simp_all add: less_mult_imp_div_less)
  have lead3: "char_of (0xE0 + cp div 0x1000) \<noteq> NUL" if "cp < 0x10000"
    using that by (intro nz) (simp_all add: less_mult_imp_div_less)
  have lead4: "char_of (0xF0 + cp div 0x40000) \<noteq> NUL"
    using assms by (intro nz) (simp_all add: less_mult_imp_div_less)
  show ?thesis
    using assms nz [of cp] cont cont [THEN not_sym] lead2 lead3 lead4
    by (auto simp: utf8_encode_def simp del: of_char_of)
qed

lemma c_string_Utf8Value:
  "\<forall>cp \<in> set s. 0 < cp \<and> cp < 0x110000 \<Longrightarrow> c_string (Utf8Value s) = Utf8Value s"
  unfolding c_string_def Utf8Value_def
  by (rule takeWhile_eq_all_conv [THEN iffD2]) (auto dest: utf8_encode_no_NUL)

lemma NewFromUtf8_Utf8Value:
  assumes "\<forall>cp \<in> set s. 0 < cp \<and> (cp < 0xD800 \<or> (0xE000 \<le> cp \<and> cp < 0x110000))"
  shows "NewFromUtf8 (Utf8Value s) = s"
proof -
  from assms have "\<forall>cp \<in> set s. 0 < cp \<and> cp < 0x110000" by auto
  with assms show ?thesis
    by (simp add: NewFromUtf8_def c_string_Utf8Value utf8_decode_Utf8Value)
qed

text \<open>An unpaired surrogate that was encoded is not given back: it is replaced.\<close>

lemma utf8_decode_surrogate:
  "Utf8Value [0xD800] = [CHR 0xED, CHR 0xA0, CHR 0x80]"
  "NewFromUtf8 [CHR 0xED, CHR 0xA0, CHR 0x80] = [0xFFFD, 0xFFFD, 0xFFFD]"
  by (simp_all add: Utf8Value_def utf8_encode_def NewFromUtf8_def utf8_decode_def c_string_def
      second_lo_def second_hi_def char_of_def bit_0 NUL_def)

section \<open>Rendering one capture\<close>

lemma put_bad: "badbit ss \<Longrightarrow> put ss x = ss"
  by (induction ss x rule: put.induct) simp_all

lemma foldl_put_bad: "badbit ss \<Longrightarrow> foldl put ss xs = ss"
  by (induction xs) (simp_all add: put_bad)

lemma render_frame_bad: "badbit ss \<Longrightarrow> render_frame ss frame = ss"
  by (simp add: render_frame_def Let_def foldl_put_bad del: foldl_Cons foldl_Nil)

lemma foldl_render_frame_bad: "badbit ss \<Longrightarrow> foldl render_frame ss st = ss"
  by (induction st) (simp_all add: render_frame_bad)

lemma Utf8Value_length_0_iff:
  "(Utf8Value_length (Utf8Value_of handle) = 0) = (handle = None \<or> handle = Some [])"
  by (cases handle) (simp_all add: Utf8Value_length_def Utf8Value_of_def Utf8Value_Nil_iff)

lemma render_frame_good:
  assumes "\<not> badbit ss" and "prints_script_name frame \<longrightarrow> GetScriptName frame \<noteq> None"
  shows "render_frame ss frame = ss\<lparr>str := str ss @
       newline_char # ''    at '' @
         (if IsEval frame then
            (if GetScriptId frame = kNoScriptIdInfo then
               ''[eval]:'' @ show_int (GetLineNumber frame) @ '':'' @ show_int (GetColumn frame)
             else
               ''[eval] ('' @ name_chars (GetScriptName frame) @ '':''
                 @ show_int (GetLineNumber frame) @ '':'' @ show_int (GetColumn frame))
          else
            (if GetFunctionName frame = None \<or> GetFunctionName frame = Some [] then
               name_chars (GetScriptName frame) @ '':''
                 @ show_int (GetLineNumber frame) @ '':'' @ show_int (GetColumn frame)
             else
               name_chars (GetFunctionName frame) @ '' (''
                 @ name_chars (GetScriptName frame) @ '':''
                 @ show_int (GetLineNumber frame) @ '':'' @ show_int (GetColumn frame) @ '')''))\<rparr>"
proof (cases "IsEval frame \<and> GetScriptId frame = kNoScriptIdInfo")
  case True
  with assms(1) show ?thesis
    by (simp add: render_frame_def Let_def)
next
  case False
  with assms(2) obtain s where script: "GetScriptName frame = Some s"
    by (auto simp: prints_script_name_def)
  show ?thesis
  proof (cases "IsEval frame")
    case True
    with False assms(1) script show ?thesis
      by (simp add: render_frame_def Let_def name_chars_def Utf8Value_of_def)
  next
    case not_eval: False
    show ?thesis
    proof (cases "GetFunctionName frame = None \<or> GetFunctionName frame = Some []")
      case True
      with not_eval assms(1) script show ?thesis
        by (simp add: render_frame_def Let_def name_chars_def Utf8Value_length_0_iff)
           (simp add: Utf8Value_of_def)
    next
      case False
      then obtain fn where fn: "GetFunctionName frame = Some fn" "fn \<noteq> []"
        by auto
      with not_eval assms(1) script show ?thesis
        by (simp add: render_frame_def Let_def name_chars_def Utf8Value_length_0_iff)
           (simp add: Utf8Value_of_def)
    qed
  qed
qed

lemma foldl_render_frame_lines:
  assumes "\<And>frame ss. frame \<in> set st \<Longrightarrow> \<not> badbit ss \<Longrightarrow>
      render_frame ss frame = ss\<lparr>str := str ss @ f frame\<rparr>"
    and "\<not> badbit ss"
  shows "foldl render_frame ss st = ss\<lparr>str := str ss @ concat (map f st)\<rparr>"
  using assms
proof (induction st arbitrary: ss)
  case Nil
  then show ?case by simp
next
  case (Cons frame st)
  have step: "render_frame ss frame = ss\<lparr>str := str ss @ f frame\<rparr>"
    using Cons.prems by simp
  have good: "\<not> badbit (ss\<lparr>str := str ss @ f frame\<rparr>)"
    using Cons.prems(2) by simp
  have "foldl render_frame (ss\<lparr>str := str ss @ f frame\<rparr>) st
      = ss\<lparr>str := str ss @ f frame\<rparr>\<lparr>str := str (ss\<lparr>str := str ss @ f frame\<rparr>) @ concat (map f st)\<rparr>"
    using Cons.prems(1) good by (intro Cons.IH) simp_all
  with step show ?case by simp
qed

lemma render_frame_null_script_name:
  assumes "\<not> badbit ss" and "prints_script_name frame" and "GetScriptName frame = None"
  shows "render_frame ss frame = \<lparr>str = str ss @ newline_char # ''    at '' @
       (if IsEval frame then ''[eval] (''
        else if GetFunctionName frame = None \<or> GetFunctionName frame = Some [] then []
        else name_chars (GetFunctionName frame) @ '' (''), badbit = True\<rparr>"
proof (cases "IsEval frame")
  case True
  with assms show ?thesis
    by (simp add: render_frame_def Let_def prints_script_name_def Utf8Value_of_def)
next
  case not_eval: False
  show ?thesis
  proof (cases "GetFunctionName frame = None \<or> GetFunctionName frame = Some []")
    case True
    with not_eval assms show ?thesis
      by (simp add: render_frame_def Let_def Utf8Value_length_0_iff) (simp add: Utf8Value_of_def)
  next
    case False
    then obtain fn where fn: "GetFunctionName frame = Some fn" "fn \<noteq> []"
      by auto
    with not_eval assms show ?thesis
      by (simp add: render_frame_def Let_def name_chars_def Utf8Value_length_0_iff)
         (simp add: Utf8Value_of_def)
  qed
qed

text \<open>
  C2, as the code has it, for a capture in which every frame whose line contains the
  script name has one. Rendering the capture gives one line per frame, in the order of
  the frames; every line is a newline, four spaces and \<open>at \<close>, followed by: \<open>[eval]:L:C\<close>
  for an eval frame without script id; \<open>[eval] (S:L:C\<close>, with no closing parenthesis, for
  an eval frame with a script id; \<open>S:L:C\<close> for another frame without function name; and
  \<open>F (S:L:C)\<close>, with a space between the function name and the parenthesis, for another
  frame with a function name. \<open>S\<close> and \<open>F\<close> are the names as C strings in UTF-8.
\<close>

theorem RenderSingleStack_lines:
  assumes "\<forall>frame \<in> set st. prints_script_name frame \<longrightarrow> GetScriptName frame \<noteq> None"
  shows "RenderSingleStack st =
     concat (map (\<lambda>frame.
       newline_char # ''    at '' @
         (if IsEval frame then
            (if GetScriptId frame = kNoScriptIdInfo then
               ''[eval]:'' @ show_int (GetLineNumber frame) @ '':'' @ show_int (GetColumn frame)
             else
               ''[eval] ('' @ name_chars (GetScriptName frame) @ '':''
                 @ show_int (GetLineNumber frame) @ '':'' @ show_int (GetColumn frame))
          else
            (if GetFunctionName frame = None \<or> GetFunctionName frame = Some [] then
               name_chars (GetScriptName frame) @ '':''
                 @ show_int (GetLineNumber frame) @ '':'' @ show_int (GetColumn frame)
             else
               name_chars (GetFunctionName frame) @ '' (''
                 @ name_chars (GetScriptName frame) @ '':''
                 @ show_int (GetLineNumber frame) @ '':'' @ show_int (GetColumn frame) @ '')''))) st)"
proof -
  have good: "\<not> badbit new_stringstream" by (simp add: new_stringstream_def)
  have "foldl render_frame new_stringstream st = new_stringstream\<lparr>str := str new_stringstream @
     concat (map (\<lambda>frame.
       newline_char # ''    at '' @
         (if IsEval frame then
            (if GetScriptId frame = kNoScriptIdInfo then
               ''[eval]:'' @ show_int (GetLineNumber frame) @ '':'' @ show_int (GetColumn frame)
             else
               ''[eval] ('' @ name_chars (GetScriptName frame) @ '':''
                 @ show_int (GetLineNumber frame) @ '':'' @ show_int (GetColumn frame))
          else
            (if GetFunctionName frame = None \<or> GetFunctionName frame = Some [] then
               name_chars (GetScriptName frame) @ '':''
                 @ show_int (GetLineNumber frame) @ '':'' @ show_int (GetColumn frame)
             else
               name_chars (GetFunctionName frame) @ '' (''
                 @ name_chars (GetScriptName frame) @ '':''
                 @ show_int (GetLineNumber frame) @ '':'' @ show_int (GetColumn frame) @ '')''))) st)\<rparr>"
  proof (rule foldl_render_frame_lines [OF _ good])
    fix frame and ss :: stringstream
    assume "frame \<in> set st" and "\<not> badbit ss"
    with assms show "render_frame ss frame = ss\<lparr>str := str ss @
       newline_char # ''    at '' @
         (if IsEval frame then
            (if GetScriptId frame = kNoScriptIdInfo then
               ''[eval]:'' @ show_int (GetLineNumber frame) @ '':'' @ show_int (GetColumn frame)
             else
               ''[eval] ('' @ name_chars (GetScriptName frame) @ '':''
                 @ show_int (GetLineNumber frame) @ '':'' @ show_int (GetColumn frame))
          else
            (if GetFunctionName frame = None \<or> GetFunctionName frame = Some [] then
               name_chars (GetScriptName frame) @ '':''
                 @ show_int (GetLineNumber frame) @ '':'' @ show_int (GetColumn frame)
             else
               name_chars (GetFunctionName frame) @ '' (''
                 @ name_chars (GetScriptName frame) @ '':''
                 @ show_int (GetLineNumber frame) @ '':'' @ show_int (GetColumn frame) @ '')''))\<rparr>"
      by (intro render_frame_good) blast+
  qed
  then show ?thesis
    by (simp add: RenderSingleStack_foldl new_stringstream_def)
qed

theorem RenderSingleStack_lines_witness:
  "(prints_script_name frame_named \<and> GetScriptName frame_named \<noteq> None)
   \<and> (prints_script_name frame_anonymous \<and> GetScriptName frame_anonymous \<noteq> None)
   \<and> \<not> prints_script_name frame_eval
   \<and> (prints_script_name frame_eval_script \<and> GetScriptName frame_eval_script \<noteq> None)
   \<and> RenderSingleStack [frame_named, frame_anonymous, frame_eval, frame_eval_script] =
     newline_char # ''    at f (s.js:12:3)'' @ newline_char # ''    at t.js:7:1''
       @ newline_char # ''    at [eval]:1:9'' @ newline_char # ''    at [eval] (u.js:2:4''"
proof -
  have names: "prints_script_name frame_named \<and> GetScriptName frame_named \<noteq> None"
    "prints_script_name frame_anonymous \<and> GetScriptName frame_anonymous \<noteq> None"
    "\<not> prints_script_name frame_eval"
    "prints_script_name frame_eval_script \<and> GetScriptName frame_eval_script \<noteq> None"
    by (simp_all add: prints_script_name_def frame_eval_defs)
  then have all: "\<forall>frame \<in> set [frame_named, frame_anonymous, frame_eval, frame_eval_script].
      prints_script_name frame \<longrightarrow> GetScriptName frame \<noteq> None"
    by simp
  have "concat (map (\<lambda>frame.
       newline_char # ''    at '' @
         (if IsEval frame then
            (if GetScriptId frame = kNoScriptIdInfo then
               ''[eval]:'' @ show_int (GetLineNumber frame) @ '':'' @ show_int (GetColumn frame)
             else
               ''[eval] ('' @ name_chars (GetScriptName frame) @ '':''
                 @ show_int (GetLineNumber frame) @ '':'' @ show_int (GetColumn frame))
          else
            (if GetFunctionName frame = None \<or> GetFunctionName frame = Some [] then
               name_chars (GetScriptName frame) @ '':''
                 @ show_int (GetLineNumber frame) @ '':'' @ show_int (GetColumn frame)
             else
               name_chars (GetFunctionName frame) @ '' (''
                 @ name_chars (GetScriptName frame) @ '':''
                 @ show_int (GetLineNumber frame) @ '':'' @ show_int (GetColumn frame) @ '')'')))
       [frame_named, frame_anonymous, frame_eval, frame_eval_script])
     = newline_char # ''    at f (s.js:12:3)'' @ newline_char # ''    at t.js:7:1''
       @ newline_char # ''    at [eval]:1:9'' @ newline_char # ''    at [eval] (u.js:2:4''"
    by (simp add: frame_eval_defs name_chars_def byte_eval string_eval stream_eval)
  with RenderSingleStack_lines [OF all] names show ?thesis
    by simp
qed

text \<open>
  C2 as stated fails: a frame with the function name \<open>f\<close> in \<open>s.js\<close> at 12:3 is not
  rendered as \<open>at f(s.js:12:3)\<close>.
\<close>

theorem RenderSingleStack_function_counterexample:
  "RenderSingleStack [frame_named] \<noteq> newline_char # ''    at f(s.js:12:3)''
   \<and> RenderSingleStack [frame_named] = newline_char # ''    at f (s.js:12:3)''"
  by (simp add: render_eval frame_eval_defs byte_eval string_eval stream_eval)

text \<open>
  A frame whose line contains the script name and whose script has none ends the
  rendering: the null pointer is written to the stream, and what the capture renders to is
  the lines of the frames before it and the beginning of its own line, up to the place of
  the script name. Neither the rest of the line nor any later frame is written.
\<close>

lemma RenderSingleStack_null_script_name:
  assumes "\<forall>frame \<in> set before. prints_script_name frame \<longrightarrow> GetScriptName frame \<noteq> None"
    and "prints_script_name frame" and "GetScriptName frame = None"
  shows "RenderSingleStack (before @ frame # after) =
     RenderSingleStack before @ newline_char # ''    at '' @
       (if IsEval frame then ''[eval] (''
        else if GetFunctionName frame = None \<or> GetFunctionName frame = Some [] then []
        else name_chars (GetFunctionName frame) @ '' ('')"
proof -
  obtain lines where before: "foldl render_frame new_stringstream before
      = new_stringstream\<lparr>str := str new_stringstream @ lines\<rparr>"
  proof -
    have "foldl render_frame new_stringstream before = new_stringstream\<lparr>str :=
        str new_stringstream @ concat (map (\<lambda>frame. str (render_frame new_stringstream frame)) before)\<rparr>"
    proof (rule foldl_render_frame_lines)
      fix frame and ss :: stringstream
      assume "frame \<in> set before" and good: "\<not> badbit ss"
      with assms(1) have ok: "prints_script_name frame \<longrightarrow> GetScriptName frame \<noteq> None"
        by blast
      have empty: "\<not> badbit new_stringstream" "str new_stringstream = []"
        by (simp_all add: new_stringstream_def)
      show "render_frame ss frame
          = ss\<lparr>str := str ss @ str (render_frame new_stringstream frame)\<rparr>"
        by (simp add: render_frame_good [OF good ok] render_frame_good [OF empty(1) ok] empty(2))
    qed (simp add: new_stringstream_def)
    then show ?thesis by (rule that)
  qed
  let ?ss = "new_stringstream\<lparr>str := str new_stringstream @ lines\<rparr>"
  let ?begun = "newline_char # ''    at '' @
       (if IsEval frame then ''[eval] (''
        else if GetFunctionName frame = None \<or> GetFunctionName frame = Some [] then []
        else name_chars (GetFunctionName frame) @ '' ('')"
  have good: "\<not> badbit ?ss" by (simp add: new_stringstream_def)
  have broken: "render_frame ?ss frame = \<lparr>str = str ?ss @ ?begun, badbit = True\<rparr>"
    using good assms(2,3) by (rule render_frame_null_script_name)
  have "foldl render_frame new_stringstream (before @ frame # after)
      = foldl render_frame (render_frame ?ss frame) after"
    by (simp add: before)
  also have "\<dots> = render_frame ?ss frame"
    by (rule foldl_render_frame_bad) (simp add: broken)
  finally have "RenderSingleStack (before @ frame # after) = str ?ss @ ?begun"
    unfolding RenderSingleStack_foldl broken by simp
  moreover have "RenderSingleStack before = str ?ss"
    unfolding RenderSingleStack_foldl before ..
  ultimately show ?thesis by simp
qed

lemma RenderSingleStack_unnamed_script:
  "RenderSingleStack [frame_named, frame_unnamed_script, frame_anonymous] =
     newline_char # ''    at f (s.js:12:3)'' @ newline_char # ''    at k (''"
  by (simp add: render_eval frame_eval_defs byte_eval string_eval stream_eval)

section \<open>Rendering a string\<close>

lemma char_of_eq_iff_small:
  "a < 256 \<Longrightarrow> b < 256 \<Longrightarrow> (char_of (a::nat) = char_of (b::nat)) = (a = b)"
proof
  assume ab: "a < 256" "b < 256" and "char_of a = char_of b"
  then have "(of_char (char_of a) :: nat) = of_char (char_of b)" by simp
  with ab show "a = b" by simp
qed simp

lemma Utf8Value_ascii: "ascii s \<Longrightarrow> Utf8Value s = map char_of s"
  by (induction s) (simp_all add: Utf8Value_def utf8_encode_def ascii_def)

lemma char_of_ascii_not_NUL: "0 < cp \<Longrightarrow> cp < 128 \<Longrightarrow> char_of (cp::nat) \<noteq> NUL"
proof
  assume a: "0 < cp" "cp < 128" and "char_of cp = NUL"
  then have "char_of cp = char_of (0::nat)" by (simp add: byte_eval)
  with a show False by (simp add: char_of_eq_iff_small)
qed

lemma c_string_ascii: "ascii s \<Longrightarrow> c_string (map char_of s) = map char_of s"
  by (induction s) (simp_all add: c_string_def ascii_def char_of_ascii_not_NUL)

lemma char_of_ascii_eq_space: "cp < 128 \<Longrightarrow> (char_of (cp::nat) = space_char) = (cp = 32)"
proof -
  assume a: "cp < 128"
  have eq: "space_char = char_of (32::nat)" by (simp add: byte_eval)
  show ?thesis unfolding eq using a by (simp add: char_of_eq_iff_small)
qed

lemma char_of_ascii_eq_newline: "cp < 128 \<Longrightarrow> (char_of (cp::nat) = newline_char) = (cp = 10)"
proof -
  assume a: "cp < 128"
  have eq: "newline_char = char_of (10::nat)" by (simp add: byte_eval)
  show ?thesis unfolding eq using a by (simp add: char_of_eq_iff_small)
qed

lemma starts_with_indentation_ascii:
  assumes "ascii s"
  shows "starts_with_indentation (map char_of s) = (take 4 s = [32, 32, 32, 32])"
proof (cases s)
  case Nil
  then show ?thesis by simp
next
  case s0: (Cons a s1)
  show ?thesis
  proof (cases s1)
    case Nil
    with s0 show ?thesis by simp
  next
    case s1: (Cons b s2)
    show ?thesis
    proof (cases s2)
      case Nil
      with s0 s1 show ?thesis by simp
    next
      case s2: (Cons c s3)
      show ?thesis
      proof (cases s3)
        case Nil
        with s0 s1 s2 show ?thesis by simp
      next
        case (Cons d r)
        with s0 s1 s2 assms show ?thesis
          by (auto simp: ascii_def char_of_ascii_eq_space)
      qed
    qed
  qed
qed

lemma strchr_ascii:
  "ascii s \<Longrightarrow> strchr (map char_of s) newline_char =
     (if 10 \<in> set s then Some (map char_of (dropWhile (\<lambda>cp. cp \<noteq> 10) s)) else None)"
  by (induction s) (auto simp: ascii_def char_of_ascii_eq_newline)

lemma NewFromOneByte_ascii: "ascii s \<Longrightarrow> NewFromOneByte (map char_of s) = s"
proof -
  assume a: "ascii s"
  then have "map (of_char \<circ> char_of) s = map id s"
    by (intro map_cong refl) (auto simp: ascii_def)
  with a show ?thesis by (simp add: NewFromOneByte_def c_string_ascii)
qed

lemma ascii_dropWhile: "ascii s \<Longrightarrow> ascii (dropWhile P s)"
  by (auto simp: ascii_def dest: set_dropWhileD)

text \<open>
  On a string of ASCII characters other than NUL the string branch does what is expected
  of it: a string that starts with four spaces is returned as it is, any other string is
  returned from its first newline on, and that is the empty string when there is none.
\<close>

lemma RenderErrorStack_ascii:
  assumes "ascii s"
  shows "RenderErrorStack live (JsString s) =
     Some (if take 4 s = [32, 32, 32, 32] then s else dropWhile (\<lambda>cp. cp \<noteq> 10) s)"
proof (cases "10 \<in> set s")
  case True
  with assms show ?thesis
    by (simp add: Utf8Value_ascii c_string_ascii starts_with_indentation_ascii strchr_ascii
        NewFromOneByte_ascii ascii_dropWhile)
next
  case False
  then have d: "dropWhile (\<lambda>cp. cp \<noteq> 10) s = []" by auto
  from False assms show ?thesis
    unfolding d
    by (simp add: Utf8Value_ascii c_string_ascii starts_with_indentation_ascii strchr_ascii
        String_Empty_def)
qed

text \<open>
  C3 at the string \<open>E\<close>, newline, space, \<open>U+00E9\<close>: the string has no indentation and
  has a newline, and what is returned is not the substring from the newline on (code points
  10, 32, 233) but the four characters 10, 32, 195, 169: the bytes of the UTF-8 buffer are
  given to \<open>NewFromOneByte\<close>, which reads every byte as one character.
\<close>

theorem RenderErrorStack_string_non_ascii:
  "RenderErrorStack live (JsString [69, 10, 32, 233]) = Some [10, 32, 195, 169]"
  by (simp add: byte_eval string_eval)

theorem RenderErrorStack_string_non_ascii_witness:
  "RenderErrorStack {} (JsString [69, 10, 32, 233]) \<noteq> Some (dropWhile (\<lambda>cp. cp \<noteq> 10) [69, 10, 32, 233])"
  using RenderErrorStack_string_non_ascii [of "{}"] by simp

text \<open>
  A NUL in the string ends the C string that is searched: the newline after it is not
  found, and the characters after a NUL that follows the newline are not returned.
\<close>

lemma RenderErrorStack_string_NUL:
  "RenderErrorStack live (JsString [69, 0, 10, 32, 97]) = Some []"
  "RenderErrorStack live (JsString [69, 10, 32, 0, 97]) = Some [10, 32]"
  by (simp_all add: byte_eval string_eval)

section \<open>Rendering chains\<close>

lemma Array_Get_pair [simp]:
  "Array_Get [newer, older] 0 = newer"
  "Array_Get [newer, older] 1 = older"
  "Array_Get [newer, older] (Suc 0) = older"
  by (simp_all add: Array_Get_def)

lemma RenderErrorStack_holder:
  "RenderErrorStack live (JsStackTraceHolder that) =
     (if context_of that \<in> live then Some (segment (referent that)) else None)"
  by (simp add: Deref_def segment_def)

lemma RenderErrorStack_pair:
  "RenderErrorStack live (JsArray [newer, older]) =
     (case RenderErrorStack live older of
        None \<Rightarrow> None
      | Some older_text \<Rightarrow>
          (case RenderErrorStack live newer of
             None \<Rightarrow> None
           | Some newer_text \<Rightarrow> Some (older_text @ boundary @ newer_text)))"
  by (simp add: String_Concat_def split: option.splits)

lemma private_stack_AttachStackGetter [simp]:
  "private_stack (AttachStackGetter error data) = data"
  by (simp add: AttachStackGetter_def SetAccessor_def SetPrivate_def)

lemma can_define_stack_SetPrivate [simp]:
  "can_define_stack (SetPrivate error data) = can_define_stack error"
  by (simp add: can_define_stack_def SetPrivate_def)

lemma stack_AttachStackGetter:
  "stack (AttachStackGetter error data) =
     (if can_define_stack error
      then NativeAccessor ErrorStackGetter_callback None DEFAULT {DontEnum}
      else stack error)"
  by (simp add: AttachStackGetter_def SetAccessor_def) (simp add: SetPrivate_def)

lemma other_fields_AttachStackGetter [simp]:
  "GetConstructorName (AttachStackGetter error data) = GetConstructorName error"
  "message (AttachStackGetter error data) = message error"
  "extensible (AttachStackGetter error data) = extensible error"
  "GetStackTrace (AttachStackGetter error data) = GetStackTrace error"
  by (simp_all add: AttachStackGetter_def SetAccessor_def SetPrivate_def)

lemma IsUndefined_iff: "IsUndefined v = (v = Undefined)"
  by (cases v) (simp_all add: IsUndefined_def)

lemma ChainStack_existing:
  "private_stack error \<noteq> Undefined \<Longrightarrow>
   ChainStack live current error stack_handle =
     Some (AttachStackGetter error
       (JsArray [JsStackTraceHolder (Handle current stack_handle), private_stack error]))"
  by (simp add: ChainStack_def IsUndefined_iff attach_pair_def NewInstance_StackTraceHolder_def)

lemma ChainStack_native:
  "private_stack error = Undefined \<Longrightarrow> GetStackTrace error = Some existing_stack \<Longrightarrow>
   ChainStack live current error stack_handle =
     Some (AttachStackGetter error
       (JsArray [JsStackTraceHolder (Handle current stack_handle),
                 JsStackTraceHolder (Handle current existing_stack)]))"
  by (simp add: ChainStack_def IsUndefined_iff attach_pair_def NewInstance_StackTraceHolder_def)

lemma ChainStack_string:
  "private_stack error = Undefined \<Longrightarrow> GetStackTrace error = None \<Longrightarrow>
   Get_stack live error = Some (JsString s) \<Longrightarrow>
   ChainStack live current error stack_handle =
     Some (AttachStackGetter error
       (JsArray [JsStackTraceHolder (Handle current stack_handle), JsString s]))"
  by (simp add: ChainStack_def IsUndefined_def IsString_def attach_pair_def
      NewInstance_StackTraceHolder_def)

lemma ChainStack_fresh:
  "private_stack error = Undefined \<Longrightarrow> GetStackTrace error = None \<Longrightarrow>
   Get_stack live error = Some v \<Longrightarrow> \<not> IsString v \<Longrightarrow>
   ChainStack live current error stack_handle =
     Some (AttachStackGetter error (JsStackTraceHolder (Handle current stack_handle)))"
  by (simp add: ChainStack_def IsUndefined_iff AttachStack_def NewInstance_StackTraceHolder_def)

lemma chain_calls_existing:
  "private_stack error \<noteq> Undefined \<Longrightarrow>
   RenderErrorStack live (private_stack error) = Some prior \<Longrightarrow>
   \<forall>(current, stack_handle) \<in> set calls. current \<in> live \<Longrightarrow>
   \<exists>error'. chain_calls live error calls = Some error'
     \<and> private_stack error' \<noteq> Undefined
     \<and> RenderErrorStack live (private_stack error') =
         Some (prior @ concat (map (\<lambda>(current, stack_handle). boundary @ segment stack_handle) calls))"
proof (induction calls arbitrary: error prior)
  case Nil
  then show ?case by simp
next
  case (Cons call calls)
  obtain current stack_handle where call: "call = (current, stack_handle)"
    by (cases call)
  let ?error = "AttachStackGetter error
       (JsArray [JsStackTraceHolder (Handle current stack_handle), private_stack error])"
  from Cons.prems call have live: "current \<in> live" by simp
  have step: "ChainStack live current error stack_handle = Some ?error"
    using Cons.prems(1) by (rule ChainStack_existing)
  have slot: "private_stack ?error \<noteq> Undefined" by simp
  have rendered: "RenderErrorStack live (private_stack ?error)
      = Some (prior @ boundary @ segment stack_handle)"
    using Cons.prems(2) live
    by (simp add: RenderErrorStack_pair RenderErrorStack_holder del: RenderErrorStack.simps)
  from Cons.prems(3) have rest: "\<forall>(current, stack_handle) \<in> set calls. current \<in> live"
    by simp
  from Cons.IH [OF slot rendered rest] call step show ?case
    by simp
qed

lemma separated_Cons: "separated (x # xs) = x @ concat (map (\<lambda>y. boundary @ y) xs)"
  by (induction xs arbitrary: x) simp_all

lemma chain_calls_separated:
  assumes "private_stack error \<noteq> Undefined"
    and "RenderErrorStack live (private_stack error) = Some prior"
    and "\<forall>(current, stack_handle) \<in> set calls. current \<in> live"
  shows "\<exists>error'. chain_calls live error calls = Some error'
     \<and> RenderErrorStack live (private_stack error') =
         Some (separated (prior # map (segment \<circ> snd) calls))"
proof -
  have "map (\<lambda>(current, stack_handle). boundary @ segment stack_handle) calls
      = map (\<lambda>y. boundary @ y) (map (segment \<circ> snd) calls)"
    by (simp add: case_prod_unfold)
  with chain_calls_existing [OF assms] show ?thesis
    by (auto simp: separated_Cons)
qed

text \<open>
  C1. One error is chained by the calls \<open>(first_context, first_stack) # later\<close>, one per
  context crossed, in this order, and all these contexts are alive when the chain is
  rendered. The rendered chain consists of the segments from the oldest to the newest, with
  the boundary marker between neighbours and nowhere else, so with one marker less than
  there are segments: the segments of the captures in the order of the calls, preceded by
  the segment the error brought along, which is none for an error without a trace of its
  own, its native trace, the body of its string \<open>stack\<close>, or the chain rendered so far.
\<close>

theorem chain_oldest_first:
  assumes "first_context \<in> live"
    and "\<forall>(current, stack_handle) \<in> set later. current \<in> live"
  shows
    "(private_stack error = Undefined \<and> GetStackTrace error = None
        \<and> Get_stack live error = Some v \<and> \<not> IsString v \<longrightarrow>
      (\<exists>error'. chain_calls live error ((first_context, first_stack) # later) = Some error'
        \<and> RenderErrorStack live (private_stack error') =
            Some (separated (map (segment \<circ> snd) ((first_context, first_stack) # later)))))
   \<and> (private_stack error = Undefined \<and> GetStackTrace error = Some existing_stack \<longrightarrow>
      (\<exists>error'. chain_calls live error ((first_context, first_stack) # later) = Some error'
        \<and> RenderErrorStack live (private_stack error') =
            Some (separated (segment existing_stack
                    # map (segment \<circ> snd) ((first_context, first_stack) # later)))))
   \<and> (private_stack error = Undefined \<and> GetStackTrace error = None
        \<and> Get_stack live error = Some (JsString s)
        \<and> RenderErrorStack live (JsString s) = Some body \<longrightarrow>
      (\<exists>error'. chain_calls live error ((first_context, first_stack) # later) = Some error'
        \<and> RenderErrorStack live (private_stack error') =
            Some (separated (body # map (segment \<circ> snd) ((first_context, first_stack) # later)))))
   \<and> (private_stack error \<noteq> Undefined
        \<and> RenderErrorStack live (private_stack error) = Some prior \<longrightarrow>
      (\<exists>error'. chain_calls live error ((first_context, first_stack) # later) = Some error'
        \<and> RenderErrorStack live (private_stack error') =
            Some (separated (prior # map (segment \<circ> snd) ((first_context, first_stack) # later)))))"
proof (intro conjI impI)
  assume a: "private_stack error = Undefined \<and> GetStackTrace error = None
        \<and> Get_stack live error = Some v \<and> \<not> IsString v"
  let ?error = "AttachStackGetter error (JsStackTraceHolder (Handle first_context first_stack))"
  from a have step: "ChainStack live first_context error first_stack = Some ?error"
    by (metis ChainStack_fresh)
  have slot: "private_stack ?error \<noteq> Undefined" by simp
  have rendered: "RenderErrorStack live (private_stack ?error) = Some (segment first_stack)"
    using assms(1) by (simp add: RenderErrorStack_holder del: RenderErrorStack.simps)
  from chain_calls_separated [OF slot rendered assms(2)] step
  show "\<exists>error'. chain_calls live error ((first_context, first_stack) # later) = Some error'
        \<and> RenderErrorStack live (private_stack error') =
            Some (separated (map (segment \<circ> snd) ((first_context, first_stack) # later)))"
    by simp
next
  assume a: "private_stack error = Undefined \<and> GetStackTrace error = Some existing_stack"
  let ?error = "AttachStackGetter error
       (JsArray [JsStackTraceHolder (Handle first_context first_stack),
                 JsStackTraceHolder (Handle first_context existing_stack)])"
  from a have step: "ChainStack live first_context error first_stack = Some ?error"
    by (metis ChainStack_native)
  have slot: "private_stack ?error \<noteq> Undefined" by simp
  have rendered: "RenderErrorStack live (private_stack ?error)
      = Some (segment existing_stack @ boundary @ segment first_stack)"
    using assms(1)
    by (simp add: RenderErrorStack_pair RenderErrorStack_holder del: RenderErrorStack.simps)
  from chain_calls_separated [OF slot rendered assms(2)] step
  show "\<exists>error'. chain_calls live error ((first_context, first_stack) # later) = Some error'
        \<and> RenderErrorStack live (private_stack error') =
            Some (separated (segment existing_stack
                    # map (segment \<circ> snd) ((first_context, first_stack) # later)))"
    by (simp add: separated_Cons)
next
  assume a: "private_stack error = Undefined \<and> GetStackTrace error = None
        \<and> Get_stack live error = Some (JsString s)
        \<and> RenderErrorStack live (JsString s) = Some body"
  let ?error = "AttachStackGetter error
       (JsArray [JsStackTraceHolder (Handle first_context first_stack), JsString s])"
  from a have step: "ChainStack live first_context error first_stack = Some ?error"
    by (metis ChainStack_string)
  have slot: "private_stack ?error \<noteq> Undefined" by simp
  have rendered: "RenderErrorStack live (private_stack ?error)
      = Some (body @ boundary @ segment first_stack)"
    using assms(1) a
    by (simp add: RenderErrorStack_pair RenderErrorStack_holder del: RenderErrorStack.simps)
  from chain_calls_separated [OF slot rendered assms(2)] step
  show "\<exists>error'. chain_calls live error ((first_context, first_stack) # later) = Some error'
        \<and> RenderErrorStack live (private_stack error') =
            Some (separated (body # map (segment \<circ> snd) ((first_context, first_stack) # later)))"
    by (simp add: separated_Cons)
next
  assume a: "private_stack error \<noteq> Undefined
        \<and> RenderErrorStack live (private_stack error) = Some prior"
  from assms have all: "\<forall>(current, stack_handle) \<in> set ((first_context, first_stack) # later).
      current \<in> live"
    by simp
  from a have slot: "private_stack error \<noteq> Undefined"
    and rendered: "RenderErrorStack live (private_stack error) = Some prior"
    by simp_all
  from chain_calls_separated [OF slot rendered all]
  show "\<exists>error'. chain_calls live error ((first_context, first_stack) # later) = Some error'
        \<and> RenderErrorStack live (private_stack error') =
            Some (separated (prior # map (segment \<circ> snd) ((first_context, first_stack) # later)))"
    by simp
qed

theorem chain_oldest_first_witness:
  "(\<exists>error'. chain_calls {1, 2, 3} fresh_error
          [(1, [frame_named]), (2, [frame_eval]), (3, [frame_anonymous])] = Some error'
        \<and> RenderErrorStack {1, 2, 3} (private_stack error') =
            Some (NewFromOneByte (newline_char # ''    at f (s.js:12:3)''
              @ newline_char # ''    at (<isolated-vm boundary>)''
              @ newline_char # ''    at [eval]:1:9''
              @ newline_char # ''    at (<isolated-vm boundary>)''
              @ newline_char # ''    at t.js:7:1'')))
   \<and> (\<exists>error'. chain_calls {1} native_error [(1, [frame_named])] = Some error'
        \<and> RenderErrorStack {1} (private_stack error') =
            Some (NewFromOneByte (newline_char # ''    at t.js:7:1''
              @ newline_char # ''    at (<isolated-vm boundary>)''
              @ newline_char # ''    at f (s.js:12:3)'')))
   \<and> (\<exists>error'. chain_calls {2} copied_error [(2, [frame_named])] = Some error'
        \<and> RenderErrorStack {2} (private_stack error') =
            Some (NewFromOneByte (newline_char # ''    at h (v.js:3:3)''
              @ newline_char # ''    at (<isolated-vm boundary>)''
              @ newline_char # ''    at f (s.js:12:3)'')))
   \<and> (\<exists>error'. chain_calls {1, 2} (AttachStack 1 fresh_error [frame_eval])
          [(2, [frame_named])] = Some error'
        \<and> RenderErrorStack {1, 2} (private_stack error') =
            Some (NewFromOneByte (newline_char # ''    at [eval]:1:9''
              @ newline_char # ''    at (<isolated-vm boundary>)''
              @ newline_char # ''    at f (s.js:12:3)'')))"
proof -
  have fresh: "private_stack fresh_error = Undefined \<and> GetStackTrace fresh_error = None
      \<and> Get_stack {1, 2, 3} fresh_error = Some Undefined \<and> \<not> IsString Undefined"
    by (simp add: fresh_error_def Get_stack_def IsString_def)
  have native: "private_stack native_error = Undefined
      \<and> GetStackTrace native_error = Some [frame_anonymous]"
    by (simp add: error_eval_defs)
  have copied: "private_stack copied_error = Undefined \<and> GetStackTrace copied_error = None
      \<and> Get_stack {2} copied_error = Some (JsString (v8_string ''Error: boom''
            @ NewFromOneByte (newline_char # ''    at h (v.js:3:3)'')))
      \<and> RenderErrorStack {2} (JsString (v8_string ''Error: boom''
            @ NewFromOneByte (newline_char # ''    at h (v.js:3:3)'')))
          = Some (NewFromOneByte (newline_char # ''    at h (v.js:3:3)''))"
    by (simp add: error_eval_defs Get_stack_def byte_eval string_eval)
  have attached: "private_stack (AttachStack 1 fresh_error [frame_eval]) \<noteq> Undefined
      \<and> RenderErrorStack {1, 2} (private_stack (AttachStack 1 fresh_error [frame_eval]))
          = Some (segment [frame_eval])"
    by (simp add: AttachStack_def NewInstance_StackTraceHolder_def RenderErrorStack_holder
        del: RenderErrorStack.simps)
  have text1: "separated (map (segment \<circ> snd)
        [(1::nat, [frame_named]), (2, [frame_eval]), (3, [frame_anonymous])])
      = NewFromOneByte (newline_char # ''    at f (s.js:12:3)''
              @ newline_char # ''    at (<isolated-vm boundary>)''
              @ newline_char # ''    at [eval]:1:9''
              @ newline_char # ''    at (<isolated-vm boundary>)''
              @ newline_char # ''    at t.js:7:1'')"
    by (simp add: render_eval frame_eval_defs byte_eval string_eval
        stream_eval)
  have text2: "separated (segment [frame_anonymous]
        # map (segment \<circ> snd) [(1::nat, [frame_named])])
      = NewFromOneByte (newline_char # ''    at t.js:7:1''
              @ newline_char # ''    at (<isolated-vm boundary>)''
              @ newline_char # ''    at f (s.js:12:3)'')"
    by (simp add: render_eval frame_eval_defs byte_eval string_eval
        stream_eval)
  have text3: "separated (NewFromOneByte (newline_char # ''    at h (v.js:3:3)'')
        # map (segment \<circ> snd) [(2::nat, [frame_named])])
      = NewFromOneByte (newline_char # ''    at h (v.js:3:3)''
              @ newline_char # ''    at (<isolated-vm boundary>)''
              @ newline_char # ''    at f (s.js:12:3)'')"
    by (simp add: render_eval frame_eval_defs byte_eval string_eval
        stream_eval)
  have text4: "separated (segment [frame_eval]
        # map (segment \<circ> snd) [(2::nat, [frame_named])])
      = NewFromOneByte (newline_char # ''    at [eval]:1:9''
              @ newline_char # ''    at (<isolated-vm boundary>)''
              @ newline_char # ''    at f (s.js:12:3)'')"
    by (simp add: render_eval frame_eval_defs byte_eval string_eval
        stream_eval)
  have case1: "\<exists>error'. chain_calls {1, 2, 3} fresh_error
          [(1, [frame_named]), (2, [frame_eval]), (3, [frame_anonymous])] = Some error'
        \<and> RenderErrorStack {1, 2, 3} (private_stack error') =
            Some (separated (map (segment \<circ> snd)
              [(1::nat, [frame_named]), (2, [frame_eval]), (3, [frame_anonymous])]))"
    using fresh chain_oldest_first [where live = "{1, 2, 3}" and first_context = 1
        and later = "[(2, [frame_eval]), (3, [frame_anonymous])]" and error = fresh_error
        and v = Undefined and first_stack = "[frame_named]"]
    by simp
  have case2: "\<exists>error'. chain_calls {1} native_error [(1, [frame_named])] = Some error'
        \<and> RenderErrorStack {1} (private_stack error') =
            Some (separated (segment [frame_anonymous]
              # map (segment \<circ> snd) [(1::nat, [frame_named])]))"
    using native chain_oldest_first [where live = "{1}" and first_context = 1
        and later = "[]" and error = native_error and existing_stack = "[frame_anonymous]"
        and first_stack = "[frame_named]"]
    by simp
  have case3: "\<exists>error'. chain_calls {2} copied_error [(2, [frame_named])] = Some error'
        \<and> RenderErrorStack {2} (private_stack error') =
            Some (separated (NewFromOneByte (newline_char # ''    at h (v.js:3:3)'')
              # map (segment \<circ> snd) [(2::nat, [frame_named])]))"
    using copied chain_oldest_first [where live = "{2}" and first_context = 2
        and later = "[]" and error = copied_error and first_stack = "[frame_named]"
        and s = "v8_string ''Error: boom'' @ NewFromOneByte (newline_char # ''    at h (v.js:3:3)'')"
        and body = "NewFromOneByte (newline_char # ''    at h (v.js:3:3)'')"]
    by simp
  have case4: "\<exists>error'. chain_calls {1, 2} (AttachStack 1 fresh_error [frame_eval])
          [(2, [frame_named])] = Some error'
        \<and> RenderErrorStack {1, 2} (private_stack error') =
            Some (separated (segment [frame_eval]
              # map (segment \<circ> snd) [(2::nat, [frame_named])]))"
    using attached chain_oldest_first [where live = "{1, 2}" and first_context = 2
        and later = "[]" and error = "AttachStack 1 fresh_error [frame_eval]"
        and prior = "segment [frame_eval]" and first_stack = "[frame_named]"]
    by simp
  from case1 case2 case3 case4 show ?thesis
    unfolding text1 text2 text3 text4 by blast
qed

section \<open>The chain builder on an error whose slot is empty\<close>

text \<open>
  C4. \<open>ChainStack\<close> on an error whose private slot is empty: with a native stack trace,
  the trace is wrapped as a holder and is the older half of a new pair; without one, a
  string read from \<open>stack\<close> is the older half of a new pair; and when \<open>stack\<close> yields
  no string either, the new capture is attached alone, by \<open>AttachStack\<close>, and the slot
  holds a single holder and no pair.
\<close>

theorem ChainStack_empty_slot:
  assumes "private_stack error = Undefined"
  shows "(GetStackTrace error = Some existing_stack \<longrightarrow>
           ChainStack live current error stack_handle =
             Some (AttachStackGetter error
               (JsArray [JsStackTraceHolder (Handle current stack_handle),
                         JsStackTraceHolder (Handle current existing_stack)])))
       \<and> (GetStackTrace error = None \<and> Get_stack live error = Some (JsString s) \<longrightarrow>
           ChainStack live current error stack_handle =
             Some (AttachStackGetter error
               (JsArray [JsStackTraceHolder (Handle current stack_handle), JsString s])))
       \<and> (GetStackTrace error = None \<and> Get_stack live error = Some v \<and> \<not> IsString v \<longrightarrow>
           ChainStack live current error stack_handle = Some (AttachStack current error stack_handle)
           \<and> private_stack (AttachStack current error stack_handle)
               = JsStackTraceHolder (Handle current stack_handle))"
  using assms
  by (simp add: ChainStack_native ChainStack_string ChainStack_fresh AttachStack_def
      NewInstance_StackTraceHolder_def)

theorem ChainStack_empty_slot_witness:
  "private_stack native_error = Undefined \<and> GetStackTrace native_error = Some [frame_anonymous]
   \<and> ChainStack {1} 1 native_error [frame_named] =
       Some (AttachStackGetter native_error
         (JsArray [JsStackTraceHolder (Handle 1 [frame_named]),
                   JsStackTraceHolder (Handle 1 [frame_anonymous])]))
   \<and> private_stack copied_error = Undefined \<and> GetStackTrace copied_error = None
   \<and> Get_stack {1} copied_error = Some (JsString (v8_string ''Error: boom''
         @ NewFromOneByte (newline_char # ''    at h (v.js:3:3)'')))
   \<and> ChainStack {1} 1 copied_error [frame_named] =
       Some (AttachStackGetter copied_error
         (JsArray [JsStackTraceHolder (Handle 1 [frame_named]),
                   JsString (v8_string ''Error: boom''
                     @ NewFromOneByte (newline_char # ''    at h (v.js:3:3)''))]))
   \<and> private_stack fresh_error = Undefined \<and> GetStackTrace fresh_error = None
   \<and> Get_stack {1} fresh_error = Some Undefined \<and> \<not> IsString Undefined
   \<and> ChainStack {1} 1 fresh_error [frame_named] = Some (AttachStack 1 fresh_error [frame_named])
   \<and> private_stack (AttachStack 1 fresh_error [frame_named])
       = JsStackTraceHolder (Handle 1 [frame_named])"
proof -
  have native: "private_stack native_error = Undefined"
    "GetStackTrace native_error = Some [frame_anonymous]"
    by (simp_all add: error_eval_defs)
  have copied: "private_stack copied_error = Undefined" "GetStackTrace copied_error = None"
    "Get_stack {1} copied_error = Some (JsString (v8_string ''Error: boom''
         @ NewFromOneByte (newline_char # ''    at h (v.js:3:3)'')))"
    by (simp_all add: error_eval_defs Get_stack_def)
  have fresh: "private_stack fresh_error = Undefined" "GetStackTrace fresh_error = None"
    "Get_stack {1} fresh_error = Some Undefined" "\<not> IsString Undefined"
    by (simp_all add: error_eval_defs Get_stack_def IsString_def)
  from ChainStack_empty_slot [OF native(1), where existing_stack = "[frame_anonymous]"
        and live = "{1}" and current = 1 and stack_handle = "[frame_named]"]
    ChainStack_empty_slot [OF copied(1), where live = "{1}" and current = 1
        and stack_handle = "[frame_named]"
        and s = "v8_string ''Error: boom'' @ NewFromOneByte (newline_char # ''    at h (v.js:3:3)'')"]
    ChainStack_empty_slot [OF fresh(1), where live = "{1}" and current = 1
        and stack_handle = "[frame_named]" and v = Undefined]
    native copied fresh
  show ?thesis by simp
qed

section \<open>Reading the property\<close>

lemma can_define_fresh_error: "can_define_stack fresh_error"
  by (simp add: can_define_stack_def fresh_error_def attributes_of_def)


lemma Get_stack_accessor:
  "stack holder = NativeAccessor ErrorStackGetter_callback setter settings attributes \<Longrightarrow>
   Get_stack live holder = map_option JsString (ErrorStackGetter live holder)"
  by (simp add: Get_stack_def)





section \<open>The installer\<close>

lemma ChainStack_installs:
  assumes "ChainStack live current error stack_handle = Some error'"
  shows "\<exists>chain_data. chain_data \<noteq> Undefined \<and> error' = AttachStackGetter error chain_data"
  using assms
  by (auto simp: ChainStack_def Let_def AttachStack_def attach_pair_def
      NewInstance_StackTraceHolder_def split: if_splits option.splits)

lemma not_definable_cases:
  "\<not> extensible error \<and> stack error = NoProperty \<Longrightarrow> \<not> can_define_stack error"
  "attributes_of (stack error) = Some attributes \<and> \<not> configurable attributes \<Longrightarrow>
     \<not> can_define_stack error"
  by (simp_all add: can_define_stack_def)

text \<open>
  C6, as the code has it. \<open>AttachStackGetter\<close> stores the chain data in the private slot
  and then has V8 define the accessor \<open>stack\<close> on the same error, in one call;
  \<open>AttachStack\<close> is a call of it, and whenever \<open>ChainStack\<close> writes to the error, what
  it leaves is the result of a call of it with chain data (a holder or a pair, never
  \<open>undefined\<close>). On an error on which V8 defines the property, the slot and the accessor
  are there together. On an error that is not extensible and has no \<open>stack\<close> of its own,
  and on an error whose own \<open>stack\<close> is not configurable, the chain data is stored all
  the same and \<open>stack\<close> is left as it was.
\<close>

theorem installer_sets_slot_and_accessor:
  "private_stack (AttachStackGetter error data) = data
   \<and> (can_define_stack error \<longrightarrow>
        stack (AttachStackGetter error data) =
          NativeAccessor ErrorStackGetter_callback None DEFAULT {DontEnum}
        \<and> Get_stack live (AttachStackGetter error data) =
            map_option JsString (ErrorStackGetter live (AttachStackGetter error data)))
   \<and> (\<not> extensible error \<and> stack error = NoProperty \<longrightarrow>
        stack (AttachStackGetter error data) = NoProperty)
   \<and> (attributes_of (stack error) = Some attributes \<and> \<not> configurable attributes \<longrightarrow>
        stack (AttachStackGetter error data) = stack error)
   \<and> AttachStack current error stack_handle =
       AttachStackGetter error (JsStackTraceHolder (Handle current stack_handle))
   \<and> (\<forall>error'. ChainStack live current error stack_handle = Some error' \<longrightarrow>
         (\<exists>chain_data. chain_data \<noteq> Undefined \<and> error' = AttachStackGetter error chain_data))"
proof -
  have defined: "stack (AttachStackGetter error data) =
          NativeAccessor ErrorStackGetter_callback None DEFAULT {DontEnum}
        \<and> Get_stack live (AttachStackGetter error data) =
            map_option JsString (ErrorStackGetter live (AttachStackGetter error data))"
    if "can_define_stack error"
    using that by (simp add: Get_stack_def stack_AttachStackGetter)
  have absent: "stack (AttachStackGetter error data) = NoProperty"
    if "\<not> extensible error \<and> stack error = NoProperty"
    using that not_definable_cases(1) [OF that] by (simp add: stack_AttachStackGetter)
  have kept: "stack (AttachStackGetter error data) = stack error"
    if "attributes_of (stack error) = Some attributes \<and> \<not> configurable attributes"
    using not_definable_cases(2) [OF that] by (simp add: stack_AttachStackGetter)
  have attach: "AttachStack current error stack_handle =
       AttachStackGetter error (JsStackTraceHolder (Handle current stack_handle))"
    by (simp add: AttachStack_def NewInstance_StackTraceHolder_def)
  have slot: "private_stack (AttachStackGetter error data) = data" by simp
  from slot defined absent kept attach ChainStack_installs show ?thesis
    by blast
qed

theorem installer_sets_slot_and_accessor_witness:
  "can_define_stack native_error
   \<and> ChainStack {1} 1 native_error [frame_named] =
     Some (AttachStackGetter native_error
       (JsArray [JsStackTraceHolder (Handle 1 [frame_named]),
                 JsStackTraceHolder (Handle 1 [frame_anonymous])]))
   \<and> stack (AttachStackGetter native_error
         (JsArray [JsStackTraceHolder (Handle 1 [frame_named]),
                   JsStackTraceHolder (Handle 1 [frame_anonymous])])) =
       NativeAccessor ErrorStackGetter_callback None DEFAULT {DontEnum}
   \<and> \<not> extensible non_extensible_error \<and> stack non_extensible_error = NoProperty
   \<and> stack (AttachStackGetter non_extensible_error (JsStackTraceHolder (Handle 1 [frame_named])))
       = NoProperty
   \<and> attributes_of (stack frozen_error) = Some {ReadOnly, DontEnum, DontDelete}
   \<and> \<not> configurable {ReadOnly, DontEnum, DontDelete}
   \<and> stack (AttachStackGetter frozen_error (JsStackTraceHolder (Handle 1 [frame_named])))
       = stack frozen_error"
proof -
  have chained: "ChainStack {1} 1 native_error [frame_named] =
     Some (AttachStackGetter native_error
       (JsArray [JsStackTraceHolder (Handle 1 [frame_named]),
                 JsStackTraceHolder (Handle 1 [frame_anonymous])]))"
    by (rule ChainStack_native) (simp_all add: error_eval_defs)
  have native: "can_define_stack native_error"
    by (simp add: can_define_stack_def error_eval_defs attributes_of_def)
  have closed: "\<not> extensible non_extensible_error \<and> stack non_extensible_error = NoProperty"
    by (simp add: error_eval_defs)
  have frozen: "attributes_of (stack frozen_error) = Some {ReadOnly, DontEnum, DontDelete}
      \<and> \<not> configurable {ReadOnly, DontEnum, DontDelete}"
    by (simp add: error_eval_defs attributes_of_def configurable_def)
  from installer_sets_slot_and_accessor [where error = native_error and live = "{1}"
      and data = "JsArray [JsStackTraceHolder (Handle 1 [frame_named]),
                 JsStackTraceHolder (Handle 1 [frame_anonymous])]"]
    installer_sets_slot_and_accessor [where error = non_extensible_error
      and data = "JsStackTraceHolder (Handle 1 [frame_named])"]
    installer_sets_slot_and_accessor [where error = frozen_error
      and data = "JsStackTraceHolder (Handle 1 [frame_named])"
      and attributes = "{ReadOnly, DontEnum, DontDelete}"]
    chained native closed frozen
  show ?thesis by blast
qed

text \<open>
  C6 as stated fails: on a frozen error, whose own \<open>stack\<close> is not configurable, and on
  an error that is not extensible and has no \<open>stack\<close>, the attach path and the chaining
  path store chain data in the slot and leave the error without the accessor.
\<close>

theorem installer_slot_without_accessor_counterexample:
  "private_stack (AttachStack 1 frozen_error [frame_named])
     = JsStackTraceHolder (Handle 1 [frame_named])
   \<and> stack (AttachStack 1 frozen_error [frame_named]) = stack frozen_error
   \<and> stack frozen_error \<noteq> NativeAccessor ErrorStackGetter_callback None DEFAULT {DontEnum}
   \<and> private_stack (AttachStack 1 non_extensible_error [frame_named])
     = JsStackTraceHolder (Handle 1 [frame_named])
   \<and> stack (AttachStack 1 non_extensible_error [frame_named]) = NoProperty
   \<and> ChainStack {1} 1 non_extensible_error [frame_named]
     = Some (AttachStack 1 non_extensible_error [frame_named])"
proof -
  have frozen: "\<not> can_define_stack frozen_error"
    by (simp add: can_define_stack_def error_eval_defs)
  have closed: "\<not> can_define_stack non_extensible_error"
    by (simp add: can_define_stack_def error_eval_defs)
  have data: "stack frozen_error \<noteq> NativeAccessor ErrorStackGetter_callback None DEFAULT {DontEnum}"
    "stack non_extensible_error = NoProperty"
    by (simp_all add: error_eval_defs)
  have chained: "ChainStack {1} 1 non_extensible_error [frame_named]
     = Some (AttachStack 1 non_extensible_error [frame_named])"
    unfolding AttachStack_def NewInstance_StackTraceHolder_def
    by (rule ChainStack_fresh [where v = Undefined])
       (simp_all add: error_eval_defs Get_stack_def IsString_def)
  from frozen closed data chained show ?thesis
    by (simp add: AttachStack_def NewInstance_StackTraceHolder_def stack_AttachStackGetter)
qed

text \<open>
  C7, as the code has it. On an error on which V8 defines the property, the installer
  defines \<open>stack\<close> as a native accessor whose getter is \<open>ErrorStackGetter\<close>, with no
  setter and with the single attribute \<open>DontEnum\<close>: the property is not enumerable, and
  \<open>DontDelete\<close> is not among its attributes, so it stays configurable. This holds on the
  attach path and on the chaining path. On an error that is not extensible and has no
  \<open>stack\<close> of its own, and on an error whose own \<open>stack\<close> is not configurable, the
  installer leaves \<open>stack\<close> as it was.
\<close>

theorem installed_accessor_attributes:
  "(can_define_stack error \<longrightarrow>
      (\<exists>attributes. stack (AttachStackGetter error data) =
          NativeAccessor ErrorStackGetter_callback None DEFAULT attributes
        \<and> \<not> enumerable attributes \<and> configurable attributes)
      \<and> (\<exists>attributes. stack (AttachStack current error stack_handle) =
          NativeAccessor ErrorStackGetter_callback None DEFAULT attributes
        \<and> \<not> enumerable attributes \<and> configurable attributes)
      \<and> (\<forall>error'. ChainStack live current error stack_handle = Some error' \<longrightarrow>
          (\<exists>attributes. stack error' =
              NativeAccessor ErrorStackGetter_callback None DEFAULT attributes
            \<and> \<not> enumerable attributes \<and> configurable attributes)))
   \<and> (\<not> extensible error \<and> stack error = NoProperty \<longrightarrow>
        stack (AttachStackGetter error data) = NoProperty)
   \<and> (attributes_of (stack error) = Some own \<and> \<not> configurable own \<longrightarrow>
        stack (AttachStackGetter error data) = stack error)"
proof -
  have attrs: "\<not> enumerable {DontEnum} \<and> configurable {DontEnum}"
    by (simp add: enumerable_def configurable_def)
  have installed: "stack (AttachStackGetter error chain_data) =
      NativeAccessor ErrorStackGetter_callback None DEFAULT {DontEnum}"
    if "can_define_stack error" for chain_data
    using that by (simp add: stack_AttachStackGetter)
  have chained: "stack error' = NativeAccessor ErrorStackGetter_callback None DEFAULT {DontEnum}"
    if "can_define_stack error" "ChainStack live current error stack_handle = Some error'"
    for error'
    using ChainStack_installs [OF that(2)] installed [OF that(1)] by blast
  have absent: "stack (AttachStackGetter error data) = NoProperty"
    if "\<not> extensible error \<and> stack error = NoProperty"
    using that not_definable_cases(1) [OF that] by (simp add: stack_AttachStackGetter)
  have kept: "stack (AttachStackGetter error data) = stack error"
    if "attributes_of (stack error) = Some own \<and> \<not> configurable own"
    using not_definable_cases(2) [OF that] by (simp add: stack_AttachStackGetter)
  from attrs installed chained absent kept show ?thesis
    unfolding AttachStack_def by blast
qed

theorem installed_accessor_attributes_witness:
  "can_define_stack fresh_error
   \<and> ChainStack {1} 1 fresh_error [frame_named] = Some (AttachStack 1 fresh_error [frame_named])
   \<and> (\<exists>attributes. stack (AttachStack 1 fresh_error [frame_named]) =
        NativeAccessor ErrorStackGetter_callback None DEFAULT attributes
      \<and> \<not> enumerable attributes \<and> configurable attributes)
   \<and> attributes_of (stack frozen_error) = Some {ReadOnly, DontEnum, DontDelete}
   \<and> \<not> configurable {ReadOnly, DontEnum, DontDelete}
   \<and> stack (AttachStackGetter frozen_error (JsStackTraceHolder (Handle 1 [frame_named])))
       = stack frozen_error
   \<and> \<not> extensible non_extensible_error \<and> stack non_extensible_error = NoProperty
   \<and> stack (AttachStackGetter non_extensible_error (JsStackTraceHolder (Handle 1 [frame_named])))
       = NoProperty"
proof -
  have chained:
    "ChainStack {1} 1 fresh_error [frame_named] = Some (AttachStack 1 fresh_error [frame_named])"
    unfolding AttachStack_def NewInstance_StackTraceHolder_def
    by (rule ChainStack_fresh [where v = Undefined])
       (simp_all add: error_eval_defs Get_stack_def IsString_def)
  have closed: "\<not> extensible non_extensible_error \<and> stack non_extensible_error = NoProperty"
    by (simp add: error_eval_defs)
  have frozen: "attributes_of (stack frozen_error) = Some {ReadOnly, DontEnum, DontDelete}
      \<and> \<not> configurable {ReadOnly, DontEnum, DontDelete}"
    by (simp add: error_eval_defs attributes_of_def configurable_def)
  from installed_accessor_attributes [where error = fresh_error and live = "{1}"
      and current = 1 and stack_handle = "[frame_named]"]
    installed_accessor_attributes [where error = frozen_error
      and data = "JsStackTraceHolder (Handle 1 [frame_named])"
      and own = "{ReadOnly, DontEnum, DontDelete}"]
    installed_accessor_attributes [where error = non_extensible_error
      and data = "JsStackTraceHolder (Handle 1 [frame_named])"]
    chained closed frozen can_define_fresh_error
  show ?thesis by blast
qed

text \<open>
  C7 as stated fails: on an error on which the installer has run and V8 has defined the
  property, \<open>stack\<close> is configurable.
\<close>

theorem installed_accessor_configurable_counterexample:
  "stack (AttachStack 1 fresh_error [frame_named]) =
     NativeAccessor ErrorStackGetter_callback None DEFAULT {DontEnum}
   \<and> configurable {DontEnum}"
  using can_define_fresh_error
  by (simp add: AttachStack_def configurable_def stack_AttachStackGetter)

section \<open>Values the renderer does not render\<close>

lemma RenderErrorStack_array:
  "RenderErrorStack live (JsArray array) = None \<longleftrightarrow>
     RenderErrorStack live (Array_Get array 1) = None
     \<or> RenderErrorStack live (Array_Get array 0) = None"
  by (simp split: option.splits)

lemma stale_segment_not_rendered:
  "has_stale_segment live data \<Longrightarrow> RenderErrorStack live data = None"
proof (induction live data rule: has_stale_segment.induct)
  case (2 live array)
  then show ?case
    by (auto simp: RenderErrorStack_array simp del: RenderErrorStack.simps)
next
  case (3 live that)
  then show ?case by (simp add: Deref_def)
qed simp_all

text \<open>
  C8, as the code has it. The holder branch dereferences the handle and renders the trace
  without a test of the context: chain data with a segment, at any depth, whose context
  has been destroyed is not rendered at all, neither the segment as an empty string nor
  the markers and segments around it, and the getter returns no string for an error that
  holds such chain data, nor does a read of \<open>stack\<close> of an error that has the accessor.
\<close>

theorem stale_segment_fails:
  assumes "has_stale_segment live data"
  shows "RenderErrorStack live data = None
     \<and> RenderErrorStack live (JsArray [newer, data]) = None
     \<and> RenderErrorStack live (JsArray [data, older]) = None
     \<and> ErrorStackGetter live (AttachStackGetter error data) = None
     \<and> (stack holder = NativeAccessor ErrorStackGetter_callback setter settings attributes
            \<and> private_stack holder = data \<longrightarrow>
          Get_stack live holder = None)
     \<and> (can_define_stack error \<longrightarrow> Get_stack live (AttachStackGetter error data) = None)"
proof -
  from assms have none: "RenderErrorStack live data = None"
    by (rule stale_segment_not_rendered)
  then have getter: "ErrorStackGetter live (AttachStackGetter error data) = None"
    by (simp add: ErrorStackGetter_def split: option.splits)
  from none have read: "Get_stack live holder = None"
    if "stack holder = NativeAccessor ErrorStackGetter_callback setter settings attributes
            \<and> private_stack holder = data"
    using that by (simp add: Get_stack_def ErrorStackGetter_def split: option.splits)
  from getter have installed: "Get_stack live (AttachStackGetter error data) = None"
    if "can_define_stack error"
    using that by (simp add: Get_stack_def stack_AttachStackGetter)
  from none have pairs: "RenderErrorStack live (JsArray [newer, data]) = None"
    "RenderErrorStack live (JsArray [data, older]) = None"
    by (simp_all add: RenderErrorStack_pair del: RenderErrorStack.simps split: option.splits)
  from none pairs getter read installed show ?thesis
    by blast
qed

theorem stale_segment_fails_witness:
  "has_stale_segment {2} (JsArray [JsStackTraceHolder (Handle 2 [frame_named]),
       JsStackTraceHolder (Handle 1 [frame_anonymous])])
   \<and> can_define_stack fresh_error
   \<and> RenderErrorStack {2} (JsArray [JsStackTraceHolder (Handle 2 [frame_named]),
       JsStackTraceHolder (Handle 1 [frame_anonymous])]) = None
   \<and> Get_stack {2} (AttachStackGetter fresh_error
       (JsArray [JsStackTraceHolder (Handle 2 [frame_named]),
         JsStackTraceHolder (Handle 1 [frame_anonymous])])) = None"
proof -
  have stale: "has_stale_segment {2} (JsArray [JsStackTraceHolder (Handle 2 [frame_named]),
       JsStackTraceHolder (Handle 1 [frame_anonymous])])"
    by simp
  from stale_segment_fails [OF stale, where error = fresh_error] stale can_define_fresh_error
  show ?thesis
    by blast
qed

text \<open>
  C8 as stated fails: with context 1 destroyed and context 2 alive, the segment captured
  in context 1 is not rendered as the empty string, and the read of \<open>stack\<close> of the error
  chained from context 1 to context 2 returns no string, where C8 expects the
  marker followed by the frames of context 2.
\<close>

theorem stale_segment_counterexample:
  "RenderErrorStack {2} (JsStackTraceHolder (Handle 1 [frame_anonymous])) \<noteq> Some String_Empty
   \<and> RenderErrorStack {2} (JsStackTraceHolder (Handle 2 [frame_named])) =
       Some (NewFromOneByte (newline_char # ''    at f (s.js:12:3)''))
   \<and> ErrorStackGetter {2} (AttachStackGetter fresh_error
         (JsArray [JsStackTraceHolder (Handle 2 [frame_named]),
                   JsStackTraceHolder (Handle 1 [frame_anonymous])])) = None"
proof -
  have stale: "RenderErrorStack {2} (JsStackTraceHolder (Handle 1 [frame_anonymous])) = None"
    by (simp add: Deref_def)
  have alive: "RenderErrorStack {2} (JsStackTraceHolder (Handle 2 [frame_named])) =
       Some (NewFromOneByte (newline_char # ''    at f (s.js:12:3)''))"
    by (simp add: Deref_def render_eval frame_eval_defs byte_eval
        string_eval stream_eval)
  from stale have "RenderErrorStack {2} (JsArray [JsStackTraceHolder (Handle 2 [frame_named]),
                   JsStackTraceHolder (Handle 1 [frame_anonymous])]) = None"
    by (simp add: RenderErrorStack_pair del: RenderErrorStack.simps)
  then have "ErrorStackGetter {2} (AttachStackGetter fresh_error
         (JsArray [JsStackTraceHolder (Handle 2 [frame_named]),
                   JsStackTraceHolder (Handle 1 [frame_anonymous])])) = None"
    by (simp add: ErrorStackGetter_def split: option.splits)
  with stale alive show ?thesis by simp
qed

text \<open>
  C9, as the code has it. The renderer returns a string exactly for a string, for a holder
  whose context is alive, and for an array whose elements 1 and 0 are rendered. Any other
  value (\<open>undefined\<close>, a value of another kind, an array that lacks one of the two
  elements) is unwrapped as a holder without a test and the call fails: no such value is
  rendered as the empty string.
\<close>

theorem RenderErrorStack_succeeds_iff:
  "(\<exists>rendered. RenderErrorStack live data = Some rendered) = renderable live data"
proof (induction live data rule: renderable.induct)
  case (1 live s)
  show ?case by (simp add: Let_def split: option.splits)
next
  case (2 live array)
  then show ?case by (auto split: option.splits)
next
  case (3 live that)
  show ?case by (simp add: Deref_def)
qed simp_all

theorem RenderErrorStack_succeeds_iff_witness:
  "\<not> renderable {1} JsOther \<and> \<not> renderable {1} (JsArray [JsStackTraceHolder (Handle 1 [])])
   \<and> renderable {1} (JsArray [JsStackTraceHolder (Handle 1 []), JsString []])
   \<and> (\<exists>rendered. RenderErrorStack {1} (JsArray [JsStackTraceHolder (Handle 1 []), JsString []])
         = Some rendered)
   \<and> RenderErrorStack {1} (JsArray [JsStackTraceHolder (Handle 1 [])]) = None"
proof -
  have shapes: "\<not> renderable {1} JsOther"
    "\<not> renderable {1} (JsArray [JsStackTraceHolder (Handle 1 [])])"
    "renderable {1} (JsArray [JsStackTraceHolder (Handle 1 []), JsString []])"
    by (simp_all add: Array_Get_def)
  from RenderErrorStack_succeeds_iff [of "{1}" "JsArray [JsStackTraceHolder (Handle 1 [])]"]
    RenderErrorStack_succeeds_iff
      [of "{1}" "JsArray [JsStackTraceHolder (Handle 1 []), JsString []]"]
    shapes
  show ?thesis by auto
qed

text \<open>
  C9 as stated fails: a value that is neither a string, an array nor a holder is not
  rendered as the empty string; the call fails.
\<close>

theorem RenderErrorStack_malformed_counterexample:
  "RenderErrorStack {1} JsOther = None \<and> RenderErrorStack {1} JsOther \<noteq> Some String_Empty
   \<and> RenderErrorStack {1} Undefined = None
   \<and> RenderErrorStack {1} (JsArray [JsStackTraceHolder (Handle 1 []), JsOther]) = None"
  by (simp add: RenderErrorStack_pair del: RenderErrorStack.simps) simp

end
